theory Spec2Isabelle
  imports Complex_Main "HOL-Library.Char_ord" "HOL-Library.List_Lexorder"
begin

section \<open>The tiered memory engine of SCMP\<close>

text \<open>
  A shallow embedding of the engine in \<open>unnamed/part_001\<close>: the codec, the
  \<open>IndexedDBStore\<close> adapter, the \<open>MemoryRecord\<close> class and the methods of the \<open>SCMP\<close>
  class for the journal, tier storage, promotion and demotion, search, record creation,
  consolidation, pruning, integrity verification and start-up. Definitions carry the
  names of the source; a leading underscore is dropped and a name that Isabelle reserves
  gets a prefix or a prime.

  An asynchronous method is modelled as a function from the state before the call to
  its outcome and the state after it, as if the call ran alone from start to end. The
  one place where the source starts several calls before any has finished, the journal
  appends of \<open>createMemoryRecords\<close>, is modelled in its synchronous pieces.
\<close>

section \<open>Numbers, vectors and the codec\<close>

text \<open>
  Vector components, thresholds on decay and ages are modelled as reals, counts as \<open>nat\<close>
  and clock readings as \<open>int\<close>. \<open>Date.now()\<close> is the field \<open>now\<close> of the environment: the
  clock is held fixed while one operation runs.

  An importance, a weight and a score are values of the type \<open>number\<close>: a real or \<open>NaN\<close>.
  The importance option of a caller reaches the constructor unchecked, and a value that
  is not a number becomes \<open>NaN\<close> under \<open>Math.min\<close>. A product with \<open>NaN\<close> is \<open>NaN\<close> and every
  comparison with \<open>NaN\<close> is false, as in the source. \<open>Infinity\<close> is not modelled.
\<close>

datatype number = NaN | Num real

instantiation number :: "{times, ord}"
begin

fun times_number :: "number \<Rightarrow> number \<Rightarrow> number" where
  "times_number (Num a) (Num b) = Num (a * b)"
| "times_number _ _ = NaN"

fun less_eq_number :: "number \<Rightarrow> number \<Rightarrow> bool" where
  "less_eq_number (Num a) (Num b) \<longleftrightarrow> a \<le> b"
| "less_eq_number _ _ \<longleftrightarrow> False"

fun less_number :: "number \<Rightarrow> number \<Rightarrow> bool" where
  "less_number (Num a) (Num b) \<longleftrightarrow> a < b"
| "less_number _ _ \<longleftrightarrow> False"

instance ..

end

text \<open>\<open>Math.max(0, Math.min(1, x))\<close>\<close>

fun clamp01 :: "number \<Rightarrow> number" where
  "clamp01 (Num x) = Num (max 0 (min 1 x))"
| "clamp01 NaN = NaN"

text \<open>The truth value of a number in a condition: 0 and \<open>NaN\<close> are false.\<close>

fun truthy :: "number \<Rightarrow> bool" where
  "truthy (Num x) \<longleftrightarrow> x \<noteq> 0"
| "truthy NaN \<longleftrightarrow> False"

text \<open>
  \<open>Math.exp\<close>. A double holds no positive value below 2 to the power -1074: an
  exponential of at most half of that is returned as 0. No other rounding is modelled.
\<close>

definition Math_exp :: "real \<Rightarrow> real" where
  "Math_exp x = (if exp x \<le> 1 / 2 ^ 1075 then 0 else exp x)"

text \<open>
  \<open>xs.sort((a, b) => b.score - a.score)\<close>: a stable sort by descending score. A difference
  that is \<open>NaN\<close> counts as 0; the model then returns what a stable insertion sort returns
  (ECMAScript leaves the order to the engine when the comparator is not consistent).
\<close>

fun insertByScore :: "('a \<Rightarrow> number) \<Rightarrow> 'a \<Rightarrow> 'a list \<Rightarrow> 'a list" where
  "insertByScore score x [] = [x]"
| "insertByScore score x (y # ys) =
     (if score x < score y then y # insertByScore score x ys else x # y # ys)"

definition sortByScore :: "('a \<Rightarrow> number) \<Rightarrow> 'a list \<Rightarrow> 'a list" where
  "sortByScore score xs = foldr (insertByScore score) xs []"

type_synonym vec = "real list"

definition quantizeInt8 :: "vec \<Rightarrow> vec" where
  "quantizeInt8 v = map (\<lambda>x. max (-128) (min 127 (real_of_int (round (x * 127))))) v"

definition dequantizeInt8 :: "vec \<Rightarrow> vec" where
  "dequantizeInt8 packed = map (\<lambda>x. x / 127) packed"

datatype error =
    NotInitialized
  | InvalidText
  | StoreError
  | EncoderFailure
  | DimensionMismatch
  | LockTimeout
  | ReconstructFailed
  | TypeError
  | MemoryCreationFailed error
  | BatchCreationFailed error
  | SearchFailed error
  | ConsolidationFailed error
  | PruningFailed error
  | InitializationFailed error

fun dot :: "vec \<Rightarrow> vec \<Rightarrow> real" where
  "dot (x # xs) (y # ys) = x * y + dot xs ys"
| "dot _ _ = 0"

definition cosineSimilarity :: "vec \<Rightarrow> vec \<Rightarrow> error + real" where
  "cosineSimilarity a b =
     (if length a \<noteq> length b then Inl DimensionMismatch
      else let denom = sqrt (dot a a) * sqrt (dot b b)
           in Inr (if denom > 1 / 10 ^ 9 then dot a b / denom else 0))"

section \<open>Memory records\<close>

datatype tier = HOT | WARM | COLD | UNKNOWN

text \<open>A \<open>MemoryRecord\<close> instance.\<close>

record MemoryRecord =
  rid :: string
  embedding :: vec
  rtext :: string
  timestamp :: int
  lastAccessed :: int
  episodic :: bool
  importance :: number
  usage_count :: nat
  semantic_cluster_id :: "string option"
  integrity_hash :: string
  currentTier :: tier
  embeddingHash :: "string option"
  metadata :: "(string \<times> string) list"
  hnswHotId :: "nat option"
  hnswWarmId :: "nat option"

text \<open>
  A plain object as \<open>toJSON\<close> produces it and as the stores and the index metadata hold
  it. \<open>o_currentTier\<close> is \<open>None\<close> for the objects \<open>_updateRecord\<close> builds (they carry no
  \<open>currentTier\<close> key), \<open>o_embedding\<close> is \<open>None\<close> where the object has no \<open>embedding\<close> key.
\<close>

record obj =
  o_id :: string
  o_text :: string
  o_timestamp :: int
  o_lastAccessed :: int
  o_episodic :: bool
  o_importance :: number
  o_usage_count :: nat
  o_semantic_cluster_id :: "string option"
  o_integrity_hash :: string
  o_currentTier :: "tier option"
  o_metadata :: "(string \<times> string) list"
  o_hnswHotId :: "nat option"
  o_hnswWarmId :: "nat option"
  o_embedding :: "vec option"

text \<open>The constructor's argument object: an absent key is \<open>None\<close> and takes the default.\<close>

record args =
  a_id :: string
  a_embedding :: vec
  a_text :: string
  a_timestamp :: "int option"
  a_lastAccessed :: "int option"
  a_episodic :: "bool option"
  a_importance :: "number option"
  a_usage_count :: "nat option"
  a_semantic_cluster_id :: "string option"
  a_integrity_hash :: string
  a_currentTier :: "tier option"
  a_embeddingHash :: "string option"
  a_metadata :: "(string \<times> string) list option"
  a_hnswHotId :: "nat option"
  a_hnswWarmId :: "nat option"

definition dflt :: "'a \<Rightarrow> 'a option \<Rightarrow> 'a" where
  "dflt d x = (case x of None \<Rightarrow> d | Some v \<Rightarrow> v)"

definition new_MemoryRecord :: "int \<Rightarrow> args \<Rightarrow> MemoryRecord" where
  "new_MemoryRecord now a =
     \<lparr> rid = a_id a,
       embedding = a_embedding a,
       rtext = a_text a,
       timestamp = dflt now (a_timestamp a),
       lastAccessed = dflt now (a_lastAccessed a),
       episodic = dflt True (a_episodic a),
       importance = clamp01 (dflt (Num (1/2)) (a_importance a)),
       usage_count = dflt 0 (a_usage_count a),
       semantic_cluster_id = a_semantic_cluster_id a,
       integrity_hash = a_integrity_hash a,
       currentTier = dflt UNKNOWN (a_currentTier a),
       embeddingHash = a_embeddingHash a,
       metadata = dflt [] (a_metadata a),
       hnswHotId = a_hnswHotId a,
       hnswWarmId = a_hnswWarmId a \<rparr>"

text \<open>The argument object \<open>{...o, embedding: e, currentTier: t}\<close>.\<close>

definition spread :: "obj \<Rightarrow> vec \<Rightarrow> tier \<Rightarrow> args" where
  "spread ob e t =
     \<lparr> a_id = o_id ob, a_embedding = e, a_text = o_text ob,
       a_timestamp = Some (o_timestamp ob), a_lastAccessed = Some (o_lastAccessed ob),
       a_episodic = Some (o_episodic ob), a_importance = Some (o_importance ob),
       a_usage_count = Some (o_usage_count ob),
       a_semantic_cluster_id = o_semantic_cluster_id ob,
       a_integrity_hash = o_integrity_hash ob, a_currentTier = Some t,
       a_embeddingHash = None, a_metadata = Some (o_metadata ob),
       a_hnswHotId = o_hnswHotId ob, a_hnswWarmId = o_hnswWarmId ob \<rparr>"

definition halfLife :: real where
  "halfLife = 14 * 24 * 60 * 60 * 1000"

definition scale :: real where
  "scale = 7 * 24 * 60 * 60 * 1000"

definition decay_score :: "int \<Rightarrow> MemoryRecord \<Rightarrow> real" where
  "decay_score now r = Math_exp (- real_of_int (now - timestamp r) / halfLife)"

definition temporal_weight :: "int \<Rightarrow> MemoryRecord \<Rightarrow> real" where
  "temporal_weight now r = 1 / (1 + real_of_int (now - timestamp r) / scale)"

definition effective_weight :: "int \<Rightarrow> MemoryRecord \<Rightarrow> number" where
  "effective_weight now r =
     importance r * Num (decay_score now r) * Num (temporal_weight now r)"

definition access :: "int \<Rightarrow> bool \<Rightarrow> MemoryRecord \<Rightarrow> MemoryRecord" where
  "access now simulate r =
     (if \<not> simulate then r\<lparr>usage_count := usage_count r + 1, lastAccessed := now\<rparr> else r)"

definition toJSON :: "MemoryRecord \<Rightarrow> obj" where
  "toJSON r =
     \<lparr> o_id = rid r, o_text = rtext r, o_timestamp = timestamp r,
       o_lastAccessed = lastAccessed r, o_episodic = episodic r,
       o_importance = importance r, o_usage_count = usage_count r,
       o_semantic_cluster_id = semantic_cluster_id r,
       o_integrity_hash = integrity_hash r, o_currentTier = Some (currentTier r),
       o_metadata = metadata r, o_hnswHotId = hnswHotId r,
       o_hnswWarmId = hnswWarmId r, o_embedding = None \<rparr>"

text \<open>The statement \<open>r.importance *= 0.8\<close> of \<open>_processCluster\<close>.\<close>

definition attenuate :: "MemoryRecord \<Rightarrow> MemoryRecord" where
  "attenuate r = r\<lparr>importance := importance r * Num (8/10)\<rparr>"


section \<open>Results of fallible, state-changing code\<close>

text \<open>
  An operation returns what it threw or returned together with the state it left behind:
  a JavaScript exception does not undo the writes made before it.
\<close>

definition andThen ::
  "(error + 'a) \<times> 's \<Rightarrow> ('a \<Rightarrow> 's \<Rightarrow> (error + 'b) \<times> 's) \<Rightarrow> (error + 'b) \<times> 's" where
  "andThen m f = (case m of (Inl e, s) \<Rightarrow> (Inl e, s) | (Inr x, s) \<Rightarrow> f x s)"

text \<open>\<open>try { m } catch (error) { throw wrap(error) }\<close>\<close>

definition rethrow :: "(error \<Rightarrow> error) \<Rightarrow> (error + 'a) \<times> 's \<Rightarrow> (error + 'a) \<times> 's" where
  "rethrow wrap m = (case m of (Inl e, s) \<Rightarrow> (Inl (wrap e), s) | (Inr x, s) \<Rightarrow> (Inr x, s))"

section \<open>The key-value store adapter\<close>

text \<open>
  One \<open>IndexedDBStore\<close>. \<open>items\<close> is the object store in key order (the order of
  \<open>getAll\<close> and of a cursor). \<open>broken\<close> is the environment's part: the database cannot
  be opened and its requests end in \<open>onerror\<close>. A method rejects when the store is not
  open or broken. \<open>calls\<close> records, in order, which methods have been called on this
  store; it is kept when the store is opened again by a later instance.
\<close>

datatype 'k call =
  Put 'k | Get 'k | GetAll | IterateChunks nat | Delete 'k | Count | Clear

record ('k, 'v) store =
  isOpen :: bool
  broken :: bool
  items :: "('k \<times> 'v) list"
  calls :: "'k call list"

definition available :: "('k, 'v) store \<Rightarrow> bool" where
  "available st \<longleftrightarrow> isOpen st \<and> \<not> broken st"

definition store_open :: "('k, 'v) store \<Rightarrow> (error + unit) \<times> ('k, 'v) store" where
  "store_open st =
     (if isOpen st then (Inr (), st)
      else if broken st then (Inl StoreError, st)
      else (Inr (), st\<lparr>isOpen := True\<rparr>))"

fun put_item :: "'k::linorder \<Rightarrow> 'v \<Rightarrow> ('k \<times> 'v) list \<Rightarrow> ('k \<times> 'v) list" where
  "put_item k v [] = [(k, v)]"
| "put_item k v ((k', v') # xs) =
     (if k < k' then (k, v) # (k', v') # xs
      else if k = k' then (k, v) # xs
      else (k', v') # put_item k v xs)"

definition called :: "'k call \<Rightarrow> ('k, 'v) store \<Rightarrow> ('k, 'v) store" where
  "called c st = st\<lparr>calls := calls st @ [c]\<rparr>"

definition store_put ::
  "'k::linorder \<Rightarrow> 'v \<Rightarrow> ('k, 'v) store \<Rightarrow> (error + unit) \<times> ('k, 'v) store" where
  "store_put k v st =
     (if \<not> available st then (Inl StoreError, called (Put k) st)
      else (Inr (), called (Put k) (st\<lparr>items := put_item k v (items st)\<rparr>)))"

definition store_get ::
  "'k \<Rightarrow> ('k, 'v) store \<Rightarrow> (error + 'v option) \<times> ('k, 'v) store" where
  "store_get k st =
     (if \<not> available st then (Inl StoreError, called (Get k) st)
      else (Inr (map_of (items st) k), called (Get k) st))"

definition store_getAll :: "('k, 'v) store \<Rightarrow> (error + 'v list) \<times> ('k, 'v) store" where
  "store_getAll st =
     (if \<not> available st then (Inl StoreError, called GetAll st)
      else (Inr (map snd (items st)), called GetAll st))"

definition store_delete ::
  "'k \<Rightarrow> ('k, 'v) store \<Rightarrow> (error + unit) \<times> ('k, 'v) store" where
  "store_delete k st =
     (if \<not> available st then (Inl StoreError, called (Delete k) st)
      else (Inr (), called (Delete k) (st\<lparr>items := filter (\<lambda>kv. fst kv \<noteq> k) (items st)\<rparr>)))"

definition store_count :: "('k, 'v) store \<Rightarrow> (error + nat) \<times> ('k, 'v) store" where
  "store_count st =
     (if \<not> available st then (Inl StoreError, called Count st)
      else (Inr (length (items st)), called Count st))"

definition store_clear :: "('k, 'v) store \<Rightarrow> (error + unit) \<times> ('k, 'v) store" where
  "store_clear st =
     (if \<not> available st then (Inl StoreError, called Clear st)
      else (Inr (), called Clear (st\<lparr>items := []\<rparr>)))"

text \<open>
  \<open>iterateChunks\<close> is declared \<open>async *\<close> but contains no \<open>yield\<close>: it returns a promise,
  so the generator finishes at once and a \<open>for await\<close> loop over it sees no chunk.
\<close>

definition store_iterateChunks ::
  "nat \<Rightarrow> ('k, 'v) store \<Rightarrow> (error + 'v list list) \<times> ('k, 'v) store" where
  "store_iterateChunks chunkSize st =
     (if \<not> available st then (Inl StoreError, called (IterateChunks chunkSize) st)
      else (Inr [], called (IterateChunks chunkSize) st))"

section \<open>The ANN index\<close>

text \<open>
  Modelled from the spec: \<open>EdgeVec\<close> is an external library, so the index is modelled from
  the capability set of the index manager (insert with a stable handle, metadata update,
  soft delete, compaction, metadata listing). A handle not in the index is ignored by
  \<open>updateMetadata\<close> and \<open>softDelete\<close>; \<open>getAllMetadata\<close> lists the nodes that are not
  soft-deleted. Nearest-neighbour search is a parameter of the environment.
\<close>

record node =
  n_id :: nat
  n_vector :: vec
  n_meta :: obj
  n_deleted :: bool

record index =
  nodes :: "node list"
  next_id :: nat

definition empty_index :: index where
  "empty_index = \<lparr> nodes = [], next_id = 0 \<rparr>"

definition insertWithMetadata :: "vec \<Rightarrow> obj \<Rightarrow> index \<Rightarrow> nat \<times> index" where
  "insertWithMetadata v m ix =
     (next_id ix,
      ix\<lparr>nodes := nodes ix @ [\<lparr> n_id = next_id ix, n_vector = v, n_meta = m, n_deleted = False \<rparr>],
         next_id := next_id ix + 1\<rparr>)"

definition softDelete :: "nat \<Rightarrow> index \<Rightarrow> index" where
  "softDelete h ix = ix\<lparr>nodes := map (\<lambda>n. if n_id n = h then n\<lparr>n_deleted := True\<rparr> else n) (nodes ix)\<rparr>"

definition updateMetadata :: "nat \<Rightarrow> obj \<Rightarrow> index \<Rightarrow> index" where
  "updateMetadata h m ix = ix\<lparr>nodes := map (\<lambda>n. if n_id n = h then n\<lparr>n_meta := m\<rparr> else n) (nodes ix)\<rparr>"

definition compact_index :: "index \<Rightarrow> index" where
  "compact_index ix = ix\<lparr>nodes := filter (\<lambda>n. \<not> n_deleted n) (nodes ix)\<rparr>"

definition getAllMetadata :: "index \<Rightarrow> obj list" where
  "getAllMetadata ix = map n_meta (filter (\<lambda>n. \<not> n_deleted n) (nodes ix))"

text \<open>One search result: \<open>res.metadata\<close>, \<open>res.embedding\<close> (empty when absent), \<open>res.score\<close>.\<close>

record hit =
  h_metadata :: obj
  h_embedding :: vec
  h_score :: number

section \<open>External collaborators\<close>

record env =
  now :: int
  ollama_request :: "string \<Rightarrow> vec option"
  ollama_generate :: "string \<Rightarrow> string option"
  sha256 :: "string \<Rightarrow> string"
  toFixed8 :: "real \<Rightarrow> string"
  showNumber :: "int \<Rightarrow> string"
  randomText :: "nat \<Rightarrow> string"
  searchBQ :: "index \<Rightarrow> vec \<Rightarrow> nat \<Rightarrow> hit list"
  quantizeFloat16 :: "vec \<Rightarrow> vec"
  dequantizeFloat16 :: "vec \<Rightarrow> vec"
  hcluster :: "vec list \<Rightarrow> vec list list"
  generateKey :: string
  randomUUID :: string

text \<open>
  \<open>ollama_request\<close> is the HTTP request with its retries (\<open>None\<close>: every attempt failed),
  \<open>showNumber\<close> the conversion of a number to a string, \<open>randomText i\<close> the text of the
  \<open>i\<close>-th \<open>Math.random()\<close> of a call, \<open>hcluster\<close> the clustering
  library returning each cluster as its leaves, and the two float16 functions stand for
  the bit-level conversions of the source.
\<close>

fun join :: "string \<Rightarrow> string list \<Rightarrow> string" where
  "join sep [] = []"
| "join sep [x] = x"
| "join sep (x # y # ys) = x @ sep @ join sep (y # ys)"

definition hashEmbedding :: "env \<Rightarrow> vec \<Rightarrow> string" where
  "hashEmbedding env v = sha256 env (join '','' (map (toFixed8 env) v))"

definition embed :: "env \<Rightarrow> string \<Rightarrow> error + vec" where
  "embed env t =
     (if t = [] then Inl InvalidText
      else case ollama_request env t of None \<Rightarrow> Inl EncoderFailure | Some v \<Rightarrow> Inr v)"

section \<open>The engine state\<close>

record config =
  U_hot :: nat
  I_hot :: number
  D_warm :: real
  epsilon :: number
  consolidationInterval :: nat
  consolidationChunkSize :: nat
  journalRotationSize :: nat
  coldSearchChunkSize :: nat
  demotionUsageThreshold :: nat
  compactionThreshold :: nat
  mutationBatchSize :: nat
  useAdvancedClustering :: bool
  advancedClusteringThreshold :: nat
  clusterDiameter :: real
  maxClustersPerPass :: nat

definition default_config :: config where
  "default_config =
     \<lparr> U_hot = 10, I_hot = Num (8/10), D_warm = 1/10, epsilon = Num (1/100),
       consolidationInterval = 100, consolidationChunkSize = 500,
       journalRotationSize = 10000, coldSearchChunkSize = 1000,
       demotionUsageThreshold = 2, compactionThreshold = 100, mutationBatchSize = 10,
       useAdvancedClustering = True, advancedClusteringThreshold = 5000,
       clusterDiameter = 3/10, maxClustersPerPass = 100 \<rparr>"

datatype meta_value = Jwk string | SaltValue string | CounterValue nat

record journal_entry =
  e_id :: nat
  e_timestamp :: int
  e_record :: obj

text \<open>Work handed to \<open>setImmediate\<close>: enqueued, not awaited.\<close>

datatype task = ConsolidateTask | RotateJournalTask | SaveTask | CompactTask

record scmp =
  config :: config
  warmStore :: "(string, obj) store"
  coldStore :: "(string, obj) store"
  journalStore :: "(nat, journal_entry) store"
  metaStore :: "(string, meta_value) store"
  hnswHot :: index
  hnswWarm :: index
  savedHot :: "index option"
  savedWarm :: "index option"
  initialized :: bool
  salt :: string
  recordsSinceConsolidation :: nat
  journalCounter :: nat
  deletionsSinceCompaction :: nat
  mutationsSinceLastSave :: nat
  lock_search :: bool
  lock_consolidate :: bool
  lock_prune :: bool
  lock_compact :: bool
  scheduled :: "task list"

text \<open>
  \<open>savedHot\<close> and \<open>savedWarm\<close> are what \<open>EdgeVec.save\<close> last persisted under the two index
  names. A store method called on a store of the engine:
\<close>

definition on_warm ::
  "((string, obj) store \<Rightarrow> 'a \<times> (string, obj) store) \<Rightarrow> scmp \<Rightarrow> 'a \<times> scmp" where
  "on_warm f s = (case f (warmStore s) of (r, st) \<Rightarrow> (r, s\<lparr>warmStore := st\<rparr>))"

definition on_cold ::
  "((string, obj) store \<Rightarrow> 'a \<times> (string, obj) store) \<Rightarrow> scmp \<Rightarrow> 'a \<times> scmp" where
  "on_cold f s = (case f (coldStore s) of (r, st) \<Rightarrow> (r, s\<lparr>coldStore := st\<rparr>))"

definition on_journal ::
  "((nat, journal_entry) store \<Rightarrow> 'a \<times> (nat, journal_entry) store) \<Rightarrow> scmp \<Rightarrow> 'a \<times> scmp" where
  "on_journal f s = (case f (journalStore s) of (r, st) \<Rightarrow> (r, s\<lparr>journalStore := st\<rparr>))"

definition on_meta ::
  "((string, meta_value) store \<Rightarrow> 'a \<times> (string, meta_value) store) \<Rightarrow> scmp \<Rightarrow> 'a \<times> scmp" where
  "on_meta f s = (case f (metaStore s) of (r, st) \<Rightarrow> (r, s\<lparr>metaStore := st\<rparr>))"

definition hash :: "env \<Rightarrow> scmp \<Rightarrow> string \<Rightarrow> string" where
  "hash env s t = sha256 env (t @ salt s)"


section \<open>Journal\<close>

definition loadJournalCounter :: "scmp \<Rightarrow> (error + unit) \<times> scmp" where
  "loadJournalCounter s =
     andThen (on_meta (store_get ''journal_counter'') s) (\<lambda>counterData s1.
       (Inr (), s1\<lparr>journalCounter :=
          (case counterData of Some (CounterValue v) \<Rightarrow> v | _ \<Rightarrow> 0)\<rparr>))"

text \<open>
  \<open>_incrementJournalCounter\<close> in its two synchronous pieces. Up to its \<open>await\<close> it bumps
  the counter and issues the write of the new value; when the write has completed it
  returns \<open>this.journalCounter\<close> as it is then.
\<close>

definition incrementJournalCounter_issue :: "scmp \<Rightarrow> (error + unit) \<times> scmp" where
  "incrementJournalCounter_issue s =
     (let s1 = s\<lparr>journalCounter := journalCounter s + 1\<rparr>
      in on_meta (store_put ''journal_counter'' (CounterValue (journalCounter s1))) s1)"

definition incrementJournalCounter_return :: "error + unit \<Rightarrow> scmp \<Rightarrow> error + nat" where
  "incrementJournalCounter_return written s =
     (case written of Inl e \<Rightarrow> Inl e | Inr _ \<Rightarrow> Inr (journalCounter s))"

definition incrementJournalCounter :: "scmp \<Rightarrow> (error + nat) \<times> scmp" where
  "incrementJournalCounter s =
     (case incrementJournalCounter_issue s of
        (written, s1) \<Rightarrow> (incrementJournalCounter_return written s1, s1))"

text \<open>
  The body of \<open>appendJournal\<close> after \<open>await this._incrementJournalCounter()\<close>. Every
  error, that of the counter included, is caught and logged: only the state comes back.
\<close>

definition appendJournal_rest :: "env \<Rightarrow> MemoryRecord \<Rightarrow> error + nat \<Rightarrow> scmp \<Rightarrow> scmp" where
  "appendJournal_rest env record' journalId s =
     (case journalId of
        Inl e \<Rightarrow> s
      | Inr jid \<Rightarrow>
          (case on_journal (store_put jid
                  \<lparr> e_id = jid, e_timestamp = now env, e_record = toJSON record' \<rparr>) s of
             (Inl e, s1) \<Rightarrow> s1
           | (Inr _, s1) \<Rightarrow>
               (case on_journal store_count s1 of
                  (Inl e, s2) \<Rightarrow> s2
                | (Inr count, s2) \<Rightarrow>
                    if count \<ge> journalRotationSize (config s2)
                    then s2\<lparr>scheduled := scheduled s2 @ [RotateJournalTask]\<rparr>
                    else s2)))"

definition appendJournal :: "env \<Rightarrow> MemoryRecord \<Rightarrow> scmp \<Rightarrow> (error + unit) \<times> scmp" where
  "appendJournal env record' s =
     (if \<not> initialized s then (Inl NotInitialized, s)
      else case incrementJournalCounter s of
             (journalId, s1) \<Rightarrow> (Inr (), appendJournal_rest env record' journalId s1))"

text \<open>
  \<open>Promise.all(records.map(r => this.appendJournal(r)))\<close>: \<open>map\<close> starts every call, and
  each runs up to its first \<open>await\<close> before the next is started; the continuations run
  afterwards, in the order in which the writes were issued.
\<close>

fun appendJournal_issue_all ::
  "MemoryRecord list \<Rightarrow> scmp \<Rightarrow> (error + (MemoryRecord \<times> (error + unit)) list) \<times> scmp" where
  "appendJournal_issue_all [] s = (Inr [], s)"
| "appendJournal_issue_all (r # rs) s =
     (if \<not> initialized s then (Inl NotInitialized, s)
      else case incrementJournalCounter_issue s of
             (written, s1) \<Rightarrow>
               andThen (appendJournal_issue_all rs s1) (\<lambda>ws s2. (Inr ((r, written) # ws), s2)))"

fun appendJournal_resume_all ::
  "env \<Rightarrow> (MemoryRecord \<times> (error + unit)) list \<Rightarrow> scmp \<Rightarrow> scmp" where
  "appendJournal_resume_all env [] s = s"
| "appendJournal_resume_all env ((r, written) # ws) s =
     appendJournal_resume_all env ws
       (appendJournal_rest env r (incrementJournalCounter_return written s) s)"

definition appendJournal_all ::
  "env \<Rightarrow> MemoryRecord list \<Rightarrow> scmp \<Rightarrow> (error + unit) \<times> scmp" where
  "appendJournal_all env rs s =
     andThen (appendJournal_issue_all rs s) (\<lambda>ws s1. (Inr (), appendJournal_resume_all env ws s1))"

definition rotateJournal :: "scmp \<Rightarrow> (error + unit) \<times> scmp" where
  "rotateJournal s =
     (if \<not> initialized s then (Inl NotInitialized, s)
      else case on_journal store_count s of
             (Inl e, s1) \<Rightarrow> (Inr (), s1)
           | (Inr count, s1) \<Rightarrow>
               if count < journalRotationSize (config s1) then (Inr (), s1)
               else (case on_journal store_clear s1 of (_, s2) \<Rightarrow> (Inr (), s2)))"

section \<open>Tier storage\<close>

text \<open>
  \<open>storeWarm\<close> and the promotion and demotion functions assign to fields of the record
  they are given; the model returns the record as the call leaves it.
\<close>

definition storeWarm :: "env \<Rightarrow> MemoryRecord \<Rightarrow> scmp \<Rightarrow> (error + MemoryRecord) \<times> scmp" where
  "storeWarm env record' s =
     (if \<not> initialized s then (Inl NotInitialized, s)
      else
        let float16 = quantizeFloat16 env (embedding record');
            ins = insertWithMetadata (embedding record') (toJSON record') (hnswWarm s);
            s1 = s\<lparr>hnswWarm := snd ins\<rparr>;
            record1 = record'\<lparr>hnswWarmId := Some (fst ins)\<rparr>;
            warmRecord = (toJSON record1)\<lparr>o_embedding := Some float16\<rparr>
        in andThen (on_warm (store_put (o_id warmRecord) warmRecord) s1)
             (\<lambda>_ s2. (Inr record1, s2)))"

definition storeCold :: "MemoryRecord \<Rightarrow> scmp \<Rightarrow> (error + unit) \<times> scmp" where
  "storeCold record' s =
     (if \<not> initialized s then (Inl NotInitialized, s)
      else
        let int8 = quantizeInt8 (embedding record');
            coldRecord = (toJSON record')\<lparr>o_embedding := Some int8\<rparr>
        in on_cold (store_put (o_id coldRecord) coldRecord) s)"

section \<open>Promotion and demotion\<close>

definition shouldPromote :: "env \<Rightarrow> scmp \<Rightarrow> MemoryRecord \<Rightarrow> bool" where
  "shouldPromote env s record' \<longleftrightarrow>
     effective_weight (now env) record' \<ge> I_hot (config s) \<or>
     usage_count record' \<ge> U_hot (config s)"

definition shouldDemote :: "env \<Rightarrow> scmp \<Rightarrow> MemoryRecord \<Rightarrow> bool" where
  "shouldDemote env s record' \<longleftrightarrow>
     decay_score (now env) record' < D_warm (config s) \<and>
     usage_count record' < demotionUsageThreshold (config s)"

definition applyPromotion ::
  "env \<Rightarrow> MemoryRecord \<Rightarrow> bool \<Rightarrow> scmp \<Rightarrow> (error + tier option \<times> MemoryRecord) \<times> scmp" where
  "applyPromotion env record' simulate s =
     (if \<not> initialized s then (Inl NotInitialized, s)
      else if \<not> shouldPromote env s record' then (Inr (None, record'), s)
      else if simulate then (Inr (Some HOT, record'), s)
      else
        andThen (on_warm (store_get (rid record')) s) (\<lambda>warmRecord s1.
        andThen (if warmRecord \<noteq> None then on_warm (store_delete (rid record')) s1
                 else (Inr (), s1)) (\<lambda>_ s2.
        andThen (on_cold (store_get (rid record')) s2) (\<lambda>coldRecord s3.
        andThen (if coldRecord \<noteq> None then on_cold (store_delete (rid record')) s3
                 else (Inr (), s3)) (\<lambda>_ s4.
          let ins = insertWithMetadata (embedding record') (toJSON record') (hnswHot s4);
              s5 = s4\<lparr>hnswHot := snd ins\<rparr>;
              record1 = record'\<lparr>hnswHotId := Some (fst ins)\<rparr>;
              s6 = (case hnswWarmId record1 of
                      None \<Rightarrow> s5
                    | Some w \<Rightarrow> s5\<lparr>hnswWarm := softDelete w (hnswWarm s5)\<rparr>)
          in (Inr (Some HOT, record1\<lparr>currentTier := HOT\<rparr>), s6))))))"

definition applyDemotion ::
  "env \<Rightarrow> MemoryRecord \<Rightarrow> bool \<Rightarrow> scmp \<Rightarrow> (error + tier option \<times> MemoryRecord) \<times> scmp" where
  "applyDemotion env record' simulate s =
     (if \<not> initialized s then (Inl NotInitialized, s)
      else if \<not> shouldDemote env s record' then (Inr (None, record'), s)
      else if simulate then (Inr (Some WARM, record'), s)
      else
        let s1 = (case hnswHotId record' of
                    None \<Rightarrow> s
                  | Some h \<Rightarrow> s\<lparr>hnswHot := softDelete h (hnswHot s)\<rparr>)
        in andThen (storeWarm env record' s1)
             (\<lambda>record1 s2. (Inr (Some WARM, record1\<lparr>currentTier := WARM\<rparr>), s2)))"

definition determineSimulatedTier ::
  "env \<Rightarrow> MemoryRecord \<Rightarrow> bool \<Rightarrow> scmp \<Rightarrow> (error + tier \<times> MemoryRecord) \<times> scmp" where
  "determineSimulatedTier env record' simulate s =
     andThen (applyPromotion env record' simulate s) (\<lambda>(promoted, record1) s1.
       case promoted of
         Some t \<Rightarrow> (Inr (t, record1), s1)
       | None \<Rightarrow>
           andThen (applyDemotion env record1 simulate s1) (\<lambda>(demoted, record2) s2.
             case demoted of
               Some t \<Rightarrow> (Inr (t, record2), s2)
             | None \<Rightarrow>
                 if simulate then (Inr (currentTier record2, record2), s2)
                 else
                   andThen (on_warm (store_get (rid record2)) s2) (\<lambda>w s3.
                     if w \<noteq> None then (Inr (WARM, record2), s3)
                     else
                       andThen (on_cold (store_get (rid record2)) s3) (\<lambda>c s4.
                         if c \<noteq> None then (Inr (COLD, record2), s4)
                         else (Inr (UNKNOWN, record2), s4)))))"


section \<open>Search\<close>

text \<open>
  The \<open>filters\<close> object of the search options: the two keys the source reads, and every
  other key the caller put there.
\<close>

record filters =
  f_episodic :: "bool option"
  f_minImportance :: "number option"
  f_others :: "(string \<times> string) list"

text \<open>An entry of the result array: the record's JSON with the three added keys.\<close>

record result =
  r_obj :: obj
  r_score :: number
  r_simulatedTier :: tier
  r_similarity :: number

definition reconstructEmbedding ::
  "env \<Rightarrow> string \<Rightarrow> tier option \<Rightarrow> scmp \<Rightarrow> (error + vec) \<times> scmp" where
  "reconstructEmbedding env recordId tier' s =
     (if tier' = Some WARM then
        andThen (on_warm (store_get recordId) s) (\<lambda>warmRec s1.
          case warmRec of
            Some w \<Rightarrow> (case o_embedding w of
                         Some e \<Rightarrow> (Inr (dequantizeFloat16 env e), s1)
                       | None \<Rightarrow> (Inl ReconstructFailed, s1))
          | None \<Rightarrow> (Inl ReconstructFailed, s1))
      else if tier' = Some COLD then
        andThen (on_cold (store_get recordId) s) (\<lambda>coldRec s1.
          case coldRec of
            Some c \<Rightarrow> (case o_embedding c of
                         Some e \<Rightarrow> (Inr (dequantizeInt8 e), s1)
                       | None \<Rightarrow> (Inl ReconstructFailed, s1))
          | None \<Rightarrow> (Inl ReconstructFailed, s1))
      else (Inl ReconstructFailed, s))"

text \<open>The body of the inner loop of \<open>_chunkedColdSearch\<close> for one stored object.\<close>

definition scoreCold :: "env \<Rightarrow> vec \<Rightarrow> bool \<Rightarrow> obj \<Rightarrow> error + hit" where
  "scoreCold env queryVec simulate r =
     (case o_embedding r of
        None \<Rightarrow> Inl TypeError
      | Some packed \<Rightarrow>
          let record' = access (now env) simulate
                (new_MemoryRecord (now env) (spread r (dequantizeInt8 packed) COLD))
          in case cosineSimilarity queryVec (embedding record') of
               Inl e \<Rightarrow> Inl e
             | Inr similarity \<Rightarrow>
                 Inr \<lparr> h_metadata = toJSON record', h_embedding = embedding record',
                       h_score = Num similarity * effective_weight (now env) record' \<rparr>)"

fun scoreChunk :: "env \<Rightarrow> vec \<Rightarrow> bool \<Rightarrow> obj list \<Rightarrow> hit list \<Rightarrow> error + hit list" where
  "scoreChunk env queryVec simulate [] scored = Inr scored"
| "scoreChunk env queryVec simulate (r # chunk) scored =
     (case scoreCold env queryVec simulate r of
        Inl e \<Rightarrow> Inl e
      | Inr h \<Rightarrow> scoreChunk env queryVec simulate chunk (scored @ [h]))"

text \<open>\<open>scored.sort((a, b) => b.score - a.score); return scored.slice(0, limit)\<close>\<close>

definition topScored :: "nat \<Rightarrow> hit list \<Rightarrow> hit list" where
  "topScored limit scored = take limit (sortByScore h_score scored)"

text \<open>
  The outer loop, \<open>for (let i = 0; i < allRecords.length; i += chunkSize)\<close>. It does not
  advance when \<open>chunkSize\<close> is 0, so the result is an option: \<open>None\<close> is a loop that
  never ends.
\<close>

partial_function (option) coldLoop ::
  "env \<Rightarrow> vec \<Rightarrow> nat \<Rightarrow> bool \<Rightarrow> nat \<Rightarrow> obj list \<Rightarrow> nat \<Rightarrow> hit list \<Rightarrow> (error + hit list) option" where
  "coldLoop env queryVec limit simulate chunkSize allRecords i scored =
     (if i < length allRecords then
        (case scoreChunk env queryVec simulate (take chunkSize (drop i allRecords)) scored of
           Inl e \<Rightarrow> Some (Inl e)
         | Inr scored1 \<Rightarrow>
             if length scored1 \<ge> limit * 5 then Some (Inr (topScored limit scored1))
             else coldLoop env queryVec limit simulate chunkSize allRecords (i + chunkSize) scored1)
      else Some (Inr (topScored limit scored)))"

definition chunkedColdSearch ::
  "env \<Rightarrow> vec \<Rightarrow> nat \<Rightarrow> bool \<Rightarrow> scmp \<Rightarrow> ((error + hit list) \<times> scmp) option" where
  "chunkedColdSearch env queryVec limit simulate s =
     (case on_cold store_count s of
        (Inl e, s1) \<Rightarrow> Some (Inl e, s1)
      | (Inr coldCount, s1) \<Rightarrow>
          (case on_cold store_getAll s1 of
             (Inl e, s2) \<Rightarrow> Some (Inl e, s2)
           | (Inr allRecords, s2) \<Rightarrow>
               map_option (\<lambda>r. (r, s2))
                 (coldLoop env queryVec limit simulate (coldSearchChunkSize (config s2))
                    allRecords 0 [])))"

text \<open>\<open>{...stored, ...meta}\<close> for a \<open>meta\<close> without the keys \<open>currentTier\<close> and \<open>embedding\<close>.\<close>

definition merge_obj :: "obj option \<Rightarrow> obj \<Rightarrow> obj" where
  "merge_obj stored meta =
     (case stored of
        None \<Rightarrow> meta
      | Some st \<Rightarrow> meta\<lparr>o_currentTier := o_currentTier st, o_embedding := o_embedding st\<rparr>)"

definition updateRecord :: "obj \<Rightarrow> scmp \<Rightarrow> (error + unit) \<times> scmp" where
  "updateRecord recordData s =
     (if \<not> initialized s then (Inl NotInitialized, s)
      else
        let meta = recordData\<lparr>o_currentTier := None, o_embedding := None\<rparr> in
        case o_hnswHotId recordData of
          Some h \<Rightarrow> (Inr (), s\<lparr>hnswHot := updateMetadata h meta (hnswHot s)\<rparr>)
        | None \<Rightarrow>
        (case o_hnswWarmId recordData of
          Some w \<Rightarrow> (Inr (), s\<lparr>hnswWarm := updateMetadata w meta (hnswWarm s)\<rparr>)
        | None \<Rightarrow>
        (case on_warm (store_get (o_id recordData)) s of
          (Inl e, s1) \<Rightarrow> (Inr (), s1)
        | (Inr (Some _), s1) \<Rightarrow>
            (case on_warm (store_get (o_id recordData)) s1 of
               (Inl e, s2) \<Rightarrow> (Inr (), s2)
             | (Inr warmRec, s2) \<Rightarrow>
                 (case on_warm (store_put (o_id meta) (merge_obj warmRec meta)) s2 of
                    (_, s3) \<Rightarrow> (Inr (), s3)))
        | (Inr None, s1) \<Rightarrow>
            (case on_cold (store_get (o_id recordData)) s1 of
               (Inl e, s2) \<Rightarrow> (Inr (), s2)
             | (Inr None, s2) \<Rightarrow> (Inr (), s2)
             | (Inr (Some _), s2) \<Rightarrow>
                 (case on_cold (store_get (o_id recordData)) s2 of
                    (Inl e, s3) \<Rightarrow> (Inr (), s3)
                  | (Inr coldRec, s3) \<Rightarrow>
                      (case on_cold (store_put (o_id meta) (merge_obj coldRec meta)) s3 of
                         (_, s4) \<Rightarrow> (Inr (), s4)))))))"

fun updateAll :: "obj list \<Rightarrow> scmp \<Rightarrow> (error + unit) \<times> scmp" where
  "updateAll [] s = (Inr (), s)"
| "updateAll (r # rs) s = andThen (updateRecord r s) (\<lambda>_ s1. updateAll rs s1)"

text \<open>The body of the rescoring loop for one candidate; \<open>None\<close> is \<open>continue\<close>.\<close>

definition rescoreOne ::
  "env \<Rightarrow> bool \<Rightarrow> filters \<Rightarrow> hit \<Rightarrow> scmp \<Rightarrow> (error + result option) \<times> scmp" where
  "rescoreOne env simulate fs res s =
     (let meta = h_metadata res in
      andThen (if h_embedding res = []
               then reconstructEmbedding env (o_id meta) (o_currentTier meta) s
               else (Inr (h_embedding res), s)) (\<lambda>embedding' s1.
        let record' = access (now env) simulate
              (new_MemoryRecord (now env)
                 (spread meta embedding' (dflt HOT (o_currentTier meta))))
        in andThen (determineSimulatedTier env record' simulate s1) (\<lambda>(simulatedTier, record1) s2.
             let score = h_score res * effective_weight (now env) record1 in
             if (case f_episodic fs of None \<Rightarrow> False | Some e \<Rightarrow> episodic record1 \<noteq> e)
             then (Inr None, s2)
             else if (case f_minImportance fs of
                        None \<Rightarrow> False
                      | Some m \<Rightarrow> truthy m \<and> importance record1 < m)
             then (Inr None, s2)
             else (Inr (Some \<lparr> r_obj = toJSON record1, r_score = score,
                               r_simulatedTier = simulatedTier,
                               r_similarity = h_score res \<rparr>), s2))))"

fun rescore ::
  "env \<Rightarrow> bool \<Rightarrow> filters \<Rightarrow> hit list \<Rightarrow> scmp \<Rightarrow> (error + result list) \<times> scmp" where
  "rescore env simulate fs [] s = (Inr [], s)"
| "rescore env simulate fs (res # results) s =
     andThen (rescoreOne env simulate fs res s) (\<lambda>entry s1.
       andThen (rescore env simulate fs results s1) (\<lambda>rescored s2.
         (Inr ((case entry of None \<Rightarrow> [] | Some e \<Rightarrow> [e]) @ rescored), s2)))"

text \<open>The \<open>try\<close> block of \<open>search\<close>.\<close>

definition search_body ::
  "env \<Rightarrow> string \<Rightarrow> nat \<Rightarrow> bool \<Rightarrow> filters \<Rightarrow> scmp \<Rightarrow> ((error + result list) \<times> scmp) option" where
  "search_body env queryText k simulate fs s =
     (case embed env queryText of
        Inl e \<Rightarrow> Some (Inl e, s)
      | Inr queryVec \<Rightarrow>
          let hot = searchBQ env (hnswHot s) queryVec (k * 2);
              results = (if length hot < k * 2
                         then hot @ searchBQ env (hnswWarm s) queryVec (k * 2 - length hot)
                         else hot)
          in case (if length results < k * 2
                   then chunkedColdSearch env queryVec (k * 2 - length results) simulate s
                   else Some (Inr [], s)) of
               None \<Rightarrow> None
             | Some (Inl e, s1) \<Rightarrow> Some (Inl e, s1)
             | Some (Inr coldFallback, s1) \<Rightarrow>
                 Some (andThen (rescore env simulate fs (results @ coldFallback) s1)
                   (\<lambda>rescored s2.
                      let sorted = sortByScore r_score rescored in
                      andThen (if \<not> simulate then updateAll (map r_obj (take k sorted)) s2
                               else (Inr (), s2))
                        (\<lambda>_ s3. (Inr (take k sorted), s3)))))"

text \<open>
  \<open>search\<close>. No other task runs while the model's call does, so a search lock found held
  stays held and \<open>_waitForLock\<close> ends in its timeout error (thrown before the \<open>try\<close>).
\<close>

definition search ::
  "env \<Rightarrow> string \<Rightarrow> nat \<Rightarrow> bool \<Rightarrow> filters \<Rightarrow> scmp \<Rightarrow> ((error + result list) \<times> scmp) option" where
  "search env queryText k simulate fs s =
     (if \<not> initialized s then Some (Inl NotInitialized, s)
      else if lock_search s \<and> \<not> simulate then Some (Inl LockTimeout, s)
      else
        map_option
          (\<lambda>(r, s1). ((case r of Inl e \<Rightarrow> Inl (SearchFailed e) | Inr x \<Rightarrow> Inr x),
                      (if \<not> simulate then s1\<lparr>lock_search := False\<rparr> else s1)))
          (search_body env queryText k simulate fs
             (if \<not> simulate then s\<lparr>lock_search := True\<rparr> else s)))"


section \<open>Saving and compaction\<close>

definition save :: "scmp \<Rightarrow> (error + unit) \<times> scmp" where
  "save s =
     (if \<not> initialized s then (Inl NotInitialized, s)
      else (Inr (), s\<lparr>savedHot := Some (hnswHot s), savedWarm := Some (hnswWarm s)\<rparr>))"

definition trackMutation :: "scmp \<Rightarrow> scmp" where
  "trackMutation s =
     (let s1 = s\<lparr>mutationsSinceLastSave := mutationsSinceLastSave s + 1\<rparr>
      in if mutationsSinceLastSave s1 \<ge> mutationBatchSize (config s1)
         then s1\<lparr>scheduled := scheduled s1 @ [SaveTask]\<rparr>
         else s1)"

definition compactHNSW :: "scmp \<Rightarrow> scmp" where
  "compactHNSW s =
     (if lock_compact s then s
      else
        let s1 = s\<lparr>lock_compact := True\<rparr>;
            s2 = s1\<lparr>hnswHot := compact_index (hnswHot s1),
                    hnswWarm := compact_index (hnswWarm s1),
                    deletionsSinceCompaction := 0\<rparr>;
            s3 = snd (save s2)
        in s3\<lparr>lock_compact := False\<rparr>)"

section \<open>Memory creation\<close>

record options =
  opt_episodic :: "bool option"
  opt_importance :: "number option"
  opt_metadata :: "(string \<times> string) list option"

definition createMemoryRecord ::
  "env \<Rightarrow> string \<Rightarrow> options \<Rightarrow> scmp \<Rightarrow> (error + MemoryRecord) \<times> scmp" where
  "createMemoryRecord env text' opts s =
     (if \<not> initialized s then (Inl NotInitialized, s)
      else if text' = [] then (Inl InvalidText, s)
      else rethrow MemoryCreationFailed
        (let id' = hash env s (text' @ showNumber env (now env) @ randomText env 0) in
         case embed env text' of
           Inl e \<Rightarrow> (Inl e, s)
         | Inr embedding' \<Rightarrow>
             let integrity_hash' = hash env s text';
                 embHash = hashEmbedding env embedding';
                 record' = new_MemoryRecord (now env)
                   \<lparr> a_id = id', a_embedding = embedding', a_text = text',
                     a_timestamp = None, a_lastAccessed = None,
                     a_episodic = Some (dflt True (opt_episodic opts)),
                     a_importance = Some (dflt (Num (1/2)) (opt_importance opts)),
                     a_usage_count = None, a_semantic_cluster_id = None,
                     a_integrity_hash = integrity_hash', a_currentTier = Some WARM,
                     a_embeddingHash = Some embHash,
                     a_metadata = Some (dflt [] (opt_metadata opts)),
                     a_hnswHotId = None, a_hnswWarmId = None \<rparr>
             in andThen (appendJournal env record' s) (\<lambda>_ s1.
                andThen (storeWarm env record' s1) (\<lambda>record1 s2.
                  let s3 = trackMutation
                        (s2\<lparr>recordsSinceConsolidation := recordsSinceConsolidation s2 + 1\<rparr>);
                      s4 = (if recordsSinceConsolidation s3 \<ge> consolidationInterval (config s3)
                            then s3\<lparr>scheduled := scheduled s3 @ [ConsolidateTask]\<rparr>
                            else s3)
                  in (Inr record1, s4)))))"

text \<open>\<open>embedBatch\<close>: the first text that cannot be embedded fails the whole call.\<close>

fun embedBatch :: "env \<Rightarrow> string list \<Rightarrow> error + vec list" where
  "embedBatch env [] = Inr []"
| "embedBatch env (t # ts) =
     (case embed env t of
        Inl e \<Rightarrow> Inl e
      | Inr v \<Rightarrow> (case embedBatch env ts of Inl e \<Rightarrow> Inl e | Inr vs \<Rightarrow> Inr (v # vs)))"

fun storeWarm_all ::
  "env \<Rightarrow> MemoryRecord list \<Rightarrow> scmp \<Rightarrow> (error + MemoryRecord list) \<times> scmp" where
  "storeWarm_all env [] s = (Inr [], s)"
| "storeWarm_all env (r # rs) s =
     andThen (storeWarm env r s) (\<lambda>r1 s1.
       andThen (storeWarm_all env rs s1) (\<lambda>rs1 s2. (Inr (r1 # rs1), s2)))"

text \<open>
  The batch call, for an options object whose \<open>metadata\<close> is one bag shared by all records
  (the source also takes an array of bags, one per text).
\<close>

definition createMemoryRecords ::
  "env \<Rightarrow> string list \<Rightarrow> options \<Rightarrow> scmp \<Rightarrow> (error + MemoryRecord list) \<times> scmp" where
  "createMemoryRecords env texts opts s =
     (if \<not> initialized s then (Inl NotInitialized, s)
      else rethrow BatchCreationFailed
        (case embedBatch env texts of
           Inl e \<Rightarrow> (Inl e, s)
         | Inr embeddings \<Rightarrow>
             let records = map (\<lambda>(i, text', embedding').
                   new_MemoryRecord (now env)
                     \<lparr> a_id = hash env s (text' @ showNumber env (now env)
                                @ showNumber env (int i) @ randomText env i),
                       a_embedding = embedding', a_text = text',
                       a_timestamp = None, a_lastAccessed = None,
                       a_episodic = Some (dflt True (opt_episodic opts)),
                       a_importance = Some (dflt (Num (1/2)) (opt_importance opts)),
                       a_usage_count = None, a_semantic_cluster_id = None,
                       a_integrity_hash = hash env s text', a_currentTier = Some WARM,
                       a_embeddingHash = Some (hashEmbedding env embedding'),
                       a_metadata = Some (dflt [] (opt_metadata opts)),
                       a_hnswHotId = None, a_hnswWarmId = None \<rparr>)
                   (zip [0 ..< length texts] (zip texts embeddings))
             in andThen (appendJournal_all env records s) (\<lambda>_ s1.
                andThen (storeWarm_all env records s1) (\<lambda>records1 s2.
                  (Inr records1,
                   trackMutation (s2\<lparr>recordsSinceConsolidation :=
                      recordsSinceConsolidation s2 + length records1\<rparr>))))))"

section \<open>Pruning\<close>

text \<open>\<open>new MemoryRecord({...r, embedding: dequantizeInt8(r.embedding), currentTier: 'COLD'})\<close>\<close>

definition fromCold :: "env \<Rightarrow> obj \<Rightarrow> error + MemoryRecord" where
  "fromCold env r =
     (case o_embedding r of
        None \<Rightarrow> Inl TypeError
      | Some packed \<Rightarrow> Inr (new_MemoryRecord (now env) (spread r (dequantizeInt8 packed) COLD)))"

fun mapE :: "('a \<Rightarrow> error + 'b) \<Rightarrow> 'a list \<Rightarrow> error + 'b list" where
  "mapE f [] = Inr []"
| "mapE f (x # xs) =
     (case f x of
        Inl e \<Rightarrow> Inl e
      | Inr y \<Rightarrow> (case mapE f xs of Inl e \<Rightarrow> Inl e | Inr ys \<Rightarrow> Inr (y # ys)))"

definition prunable :: "env \<Rightarrow> config \<Rightarrow> MemoryRecord \<Rightarrow> bool" where
  "prunable env cfg record' \<longleftrightarrow>
     effective_weight (now env) record' < epsilon cfg \<and> usage_count record' = 0"

fun pruneLoop ::
  "env \<Rightarrow> bool \<Rightarrow> MemoryRecord list \<Rightarrow> string list \<Rightarrow> scmp \<Rightarrow> (error + string list) \<times> scmp" where
  "pruneLoop env simulate [] prunedIds s = (Inr prunedIds, s)"
| "pruneLoop env simulate (record' # coldRecords) prunedIds s =
     (if prunable env (config s) record' then
        (if \<not> simulate then
           andThen (on_cold (store_delete (rid record')) s) (\<lambda>_ s1.
             pruneLoop env simulate coldRecords (prunedIds @ [rid record'])
               (s1\<lparr>deletionsSinceCompaction := deletionsSinceCompaction s1 + 1\<rparr>))
         else pruneLoop env simulate coldRecords (prunedIds @ [rid record']) s)
      else pruneLoop env simulate coldRecords prunedIds s)"

text \<open>The \<open>try\<close> block of \<open>prune\<close>.\<close>

definition prune_body :: "env \<Rightarrow> bool \<Rightarrow> scmp \<Rightarrow> (error + string list) \<times> scmp" where
  "prune_body env simulate s =
     andThen (on_cold store_getAll s) (\<lambda>coldRaw s1.
       case mapE (fromCold env) coldRaw of
         Inl e \<Rightarrow> (Inl e, s1)
       | Inr coldRecords \<Rightarrow>
           andThen (pruneLoop env simulate coldRecords [] s1) (\<lambda>prunedIds s2.
             if \<not> simulate \<and> length prunedIds > 0 then
               (let s3 = (if deletionsSinceCompaction s2 \<ge> compactionThreshold (config s2)
                          then compactHNSW s2 else s2)
                in (Inr prunedIds, trackMutation s3))
             else (Inr prunedIds, s2)))"

definition prune :: "env \<Rightarrow> bool \<Rightarrow> scmp \<Rightarrow> (error + string list) \<times> scmp" where
  "prune env simulate s =
     (if \<not> initialized s then (Inl NotInitialized, s)
      else if lock_prune s then (Inr [], s)
      else case rethrow PruningFailed (prune_body env simulate (s\<lparr>lock_prune := True\<rparr>)) of
             (r, s1) \<Rightarrow> (r, s1\<lparr>lock_prune := False\<rparr>))"


section \<open>Integrity\<close>

definition getAllRecords :: "scmp \<Rightarrow> (error + obj list) \<times> scmp" where
  "getAllRecords s =
     (if \<not> initialized s then (Inl NotInitialized, s)
      else
        let hotMeta = map (\<lambda>m. m\<lparr>o_currentTier := Some HOT\<rparr>) (getAllMetadata (hnswHot s));
            warmMeta = map (\<lambda>m. m\<lparr>o_currentTier := Some WARM\<rparr>) (getAllMetadata (hnswWarm s))
        in andThen (on_cold store_getAll s) (\<lambda>coldRaw s1.
             case mapE (\<lambda>r. case o_embedding r of
                               None \<Rightarrow> Inl TypeError
                             | Some packed \<Rightarrow>
                                 Inr (r\<lparr>o_embedding := Some (dequantizeInt8 packed),
                                        o_currentTier := Some COLD\<rparr>)) coldRaw of
               Inl e \<Rightarrow> (Inl e, s1)
             | Inr cold \<Rightarrow> (Inr (hotMeta @ warmMeta @ cold), s1)))"

text \<open>The \<open>try\<close> block of \<open>quarantine\<close>.\<close>

definition quarantine_body :: "string \<Rightarrow> scmp \<Rightarrow> (error + unit) \<times> scmp" where
  "quarantine_body id' s =
     andThen (on_warm (store_get id') s) (\<lambda>warmRec s1.
     andThen (case warmRec of
                None \<Rightarrow> (Inr (), s1)
              | Some w \<Rightarrow>
                  on_warm (store_delete id')
                    (case o_hnswWarmId w of
                       None \<Rightarrow> s1
                     | Some h \<Rightarrow> s1\<lparr>hnswWarm := softDelete h (hnswWarm s1)\<rparr>)) (\<lambda>_ s2.
     andThen (on_cold (store_get id') s2) (\<lambda>coldRec s3.
     andThen (if coldRec \<noteq> None then on_cold (store_delete id') s3 else (Inr (), s3)) (\<lambda>_ s4.
       let s5 = (case find (\<lambda>m. o_id m = id' \<and> o_hnswHotId m \<noteq> None)
                        (getAllMetadata (hnswHot s4)) of
                   None \<Rightarrow> s4
                 | Some m \<Rightarrow>
                     (case o_hnswHotId m of
                        None \<Rightarrow> s4
                      | Some h \<Rightarrow> s4\<lparr>hnswHot := softDelete h (hnswHot s4)\<rparr>));
           s6 = s5\<lparr>deletionsSinceCompaction := deletionsSinceCompaction s5 + 1\<rparr>
       in (Inr (),
           if deletionsSinceCompaction s6 \<ge> compactionThreshold (config s6)
           then s6\<lparr>scheduled := scheduled s6 @ [CompactTask]\<rparr>
           else s6)))))"

definition quarantine :: "string \<Rightarrow> scmp \<Rightarrow> (error + unit) \<times> scmp" where
  "quarantine id' s =
     (if \<not> initialized s then (Inl NotInitialized, s)
      else case quarantine_body id' s of (_, s1) \<Rightarrow> (Inr (), s1))"

text \<open>
  The loop of \<open>verifyIntegrity\<close>. An error thrown after the id was pushed reaches the
  \<open>catch\<close>, which pushes the id again.
\<close>

fun verifyLoop :: "env \<Rightarrow> obj list \<Rightarrow> string list \<Rightarrow> scmp \<Rightarrow> string list \<times> scmp" where
  "verifyLoop env [] corrupted s = (corrupted, s)"
| "verifyLoop env (record' # records) corrupted s =
     (let currentHash = hash env s (o_text record') in
      if currentHash \<noteq> o_integrity_hash record' then
        (case quarantine (o_id record') s of
           (Inr _, s1) \<Rightarrow> verifyLoop env records (corrupted @ [o_id record']) s1
         | (Inl e, s1) \<Rightarrow>
             verifyLoop env records (corrupted @ [o_id record', o_id record']) s1)
      else verifyLoop env records corrupted s)"

definition verifyIntegrity :: "env \<Rightarrow> scmp \<Rightarrow> (error + string list) \<times> scmp" where
  "verifyIntegrity env s =
     (if \<not> initialized s then (Inl NotInitialized, s)
      else andThen (getAllRecords s) (\<lambda>records s1.
             case verifyLoop env records [] s1 of (corrupted, s2) \<Rightarrow> (Inr corrupted, s2)))"

section \<open>Consolidation\<close>

text \<open>
  The centroid of a cluster. A member shorter than the first one has no \<open>i\<close>-th component
  (the source then adds \<open>undefined\<close>); the model counts it as 0.
\<close>

definition component :: "vec \<Rightarrow> nat \<Rightarrow> real" where
  "component v i = (if i < length v then v ! i else 0)"

definition centroid :: "MemoryRecord list \<Rightarrow> vec" where
  "centroid clusterRecords =
     (case clusterRecords of
        [] \<Rightarrow> []
      | r # _ \<Rightarrow>
          map (\<lambda>i. sum_list (map (\<lambda>m. component (embedding m) i) clusterRecords)
                     / real (length clusterRecords))
            [0 ..< length (embedding r)])"

text \<open>The loop of \<open>_processCluster\<close> over the members.\<close>

fun processMembers ::
  "env \<Rightarrow> bool \<Rightarrow> string \<Rightarrow> MemoryRecord list \<Rightarrow> scmp \<Rightarrow> (error + obj list) \<times> scmp" where
  "processMembers env simulate clusterId [] s = (Inr [], s)"
| "processMembers env simulate clusterId (r # rs) s =
     (let r1 = attenuate ((access (now env) simulate r)\<lparr>semantic_cluster_id := Some clusterId\<rparr>);
          json = toJSON r1
      in andThen (applyPromotion env r1 simulate s) (\<lambda>(_, r2) s1.
         andThen (applyDemotion env r2 simulate s1) (\<lambda>_ s2.
         andThen (processMembers env simulate clusterId rs s2) (\<lambda>rest s3.
           (Inr (json # rest), s3)))))"

definition processCluster ::
  "env \<Rightarrow> MemoryRecord list \<Rightarrow> bool \<Rightarrow> scmp \<Rightarrow> (error + obj list) \<times> scmp" where
  "processCluster env clusterRecords simulate s =
     (if length clusterRecords < 2 then (Inr [], s)
      else
        case ollama_generate env
               (''Briefly summarize these related memories in one sentence:'' @ [CHR 0x0A]
                @ join [CHR 0x0A] (map rtext clusterRecords)) of
          None \<Rightarrow> (Inl EncoderFailure, s)
        | Some summary \<Rightarrow>
            let sortedIds = concat (sort (map rid clusterRecords));
                clusterId = hash env s (summary @ sortedIds);
                semanticRecord =
                  (new_MemoryRecord (now env)
                     \<lparr> a_id = hash env s (summary @ showNumber env (now env)),
                       a_embedding = centroid clusterRecords, a_text = summary,
                       a_timestamp = None, a_lastAccessed = None,
                       a_episodic = Some False, a_importance = Some (Num (7/10)),
                       a_usage_count = None, a_semantic_cluster_id = None,
                       a_integrity_hash = hash env s summary, a_currentTier = Some WARM,
                       a_embeddingHash = None,
                       a_metadata = Some [(''cluster_id'', clusterId),
                          (''member_count'', showNumber env (int (length clusterRecords)))],
                       a_hnswHotId = None, a_hnswWarmId = None \<rparr>)
                  \<lparr>semantic_cluster_id := Some clusterId\<rparr>
            in andThen (appendJournal env semanticRecord s) (\<lambda>_ s1.
               andThen (if \<not> simulate then storeWarm env semanticRecord s1
                        else (Inr semanticRecord, s1)) (\<lambda>semanticRecord1 s2.
               andThen (processMembers env simulate clusterId clusterRecords s2) (\<lambda>members s3.
                 (Inr (toJSON semanticRecord1 # members), s3)))))"

fun processClusters ::
  "env \<Rightarrow> bool \<Rightarrow> MemoryRecord list list \<Rightarrow> scmp \<Rightarrow> (error + obj list) \<times> scmp" where
  "processClusters env simulate [] s = (Inr [], s)"
| "processClusters env simulate (c # cs) s =
     andThen (processCluster env c simulate s) (\<lambda>updated s1.
       andThen (processClusters env simulate cs s1) (\<lambda>rest s2. (Inr (updated @ rest), s2)))"

text \<open>\<open>r.getEmbeddingHash()\<close>\<close>

definition getEmbeddingHash :: "env \<Rightarrow> MemoryRecord \<Rightarrow> string" where
  "getEmbeddingHash env r =
     (case embeddingHash r of Some h \<Rightarrow> h | None \<Rightarrow> hashEmbedding env (embedding r))"

text \<open>
  \<open>_consolidateChunk\<close>. The map from embedding hash to record keeps the last record of a
  hash; a cluster is its leaves, and its size their number. Each member is processed
  from the value it had when the chunk was read.
\<close>

definition consolidateChunk ::
  "env \<Rightarrow> MemoryRecord list \<Rightarrow> bool \<Rightarrow> scmp \<Rightarrow> (error + obj list) \<times> scmp" where
  "consolidateChunk env records simulate s =
     (if length records < 2 then (Inr [], s)
      else
        let embeddingHashToRecord = map_of (rev (map (\<lambda>r. (getEmbeddingHash env r, r)) records));
            clusters = hcluster env (map embedding records);
            clusterRecords = map (\<lambda>leaves.
                List.map_filter (\<lambda>leaf. embeddingHashToRecord (hashEmbedding env leaf)) leaves)
              (filter (\<lambda>leaves. \<not> length leaves < 2) clusters)
        in processClusters env simulate
             (filter (\<lambda>c. \<not> length c < 2) clusterRecords) s)"

text \<open>\<open>new MemoryRecord({...r, embedding: dequantizeFloat16(r.embedding), currentTier: 'WARM'})\<close>\<close>

definition fromWarm :: "env \<Rightarrow> obj \<Rightarrow> error + MemoryRecord" where
  "fromWarm env r =
     (case o_embedding r of
        None \<Rightarrow> Inl TypeError
      | Some packed \<Rightarrow>
          Inr (new_MemoryRecord (now env) (spread r (dequantizeFloat16 env packed) WARM)))"

text \<open>
  The chunk loop of \<open>consolidate\<close>,
  \<open>for (let offset = 0; offset < warmRaw.length; offset += chunkSize)\<close>;
  \<open>None\<close> is a loop that never ends.
\<close>

partial_function (option) chunkLoop ::
  "env \<Rightarrow> bool \<Rightarrow> nat \<Rightarrow> obj list \<Rightarrow> nat \<Rightarrow> obj list \<Rightarrow> scmp
   \<Rightarrow> ((error + obj list) \<times> scmp) option" where
  "chunkLoop env simulate chunkSize warmRaw offset allUpdated s =
     (if offset < length warmRaw then
        (case mapE (fromWarm env) (take chunkSize (drop offset warmRaw)) of
           Inl e \<Rightarrow> Some (Inl e, s)
         | Inr chunkRecords \<Rightarrow>
             (case consolidateChunk env chunkRecords simulate s of
                (Inl e, s1) \<Rightarrow> Some (Inl e, s1)
              | (Inr updated, s1) \<Rightarrow>
                  chunkLoop env simulate chunkSize warmRaw (offset + chunkSize)
                    (allUpdated @ updated) s1))
      else Some (Inr allUpdated, s))"

text \<open>
  \<open>_hnswBasedClustering\<close>: the inner loop over the neighbours of one record, and the outer
  loop over the records. The temporary index holds \<open>{ id: record.id }\<close> as metadata.
\<close>

definition id_only :: "string \<Rightarrow> obj" where
  "id_only i =
     \<lparr> o_id = i, o_text = [], o_timestamp = 0, o_lastAccessed = 0, o_episodic = False,
       o_importance = Num 0, o_usage_count = 0, o_semantic_cluster_id = None,
       o_integrity_hash = [], o_currentTier = None, o_metadata = [],
       o_hnswHotId = None, o_hnswWarmId = None, o_embedding = None \<rparr>"

fun gatherNeighbors ::
  "real \<Rightarrow> (string \<rightharpoonup> MemoryRecord) \<Rightarrow> hit list \<Rightarrow> MemoryRecord list \<Rightarrow> string list
   \<Rightarrow> MemoryRecord list \<times> string list" where
  "gatherNeighbors threshold idToRecord [] cluster processed = (cluster, processed)"
| "gatherNeighbors threshold idToRecord (neighbor # neighbors) cluster processed =
     (let meta = h_metadata neighbor in
      if o_id meta \<in> set processed
      then gatherNeighbors threshold idToRecord neighbors cluster processed
      else if h_score neighbor \<ge> Num (1 - threshold) then
        (case idToRecord (o_id meta) of
           Some r \<Rightarrow> gatherNeighbors threshold idToRecord neighbors
                       (cluster @ [r]) (processed @ [o_id meta])
         | None \<Rightarrow> gatherNeighbors threshold idToRecord neighbors cluster processed)
      else gatherNeighbors threshold idToRecord neighbors cluster processed)"

fun clusterLoop ::
  "env \<Rightarrow> config \<Rightarrow> index \<Rightarrow> (string \<rightharpoonup> MemoryRecord) \<Rightarrow> MemoryRecord list \<Rightarrow> string list
   \<Rightarrow> MemoryRecord list list \<Rightarrow> MemoryRecord list list" where
  "clusterLoop env cfg tempIndex idToRecord [] processed clusters = clusters"
| "clusterLoop env cfg tempIndex idToRecord (record' # records) processed clusters =
     (if rid record' \<in> set processed
      then clusterLoop env cfg tempIndex idToRecord records processed clusters
      else
        let neighbors = searchBQ env tempIndex (embedding record') 50;
            gathered = gatherNeighbors (clusterDiameter cfg) idToRecord neighbors
                         [record'] (processed @ [rid record']);
            clusters1 = (if length (fst gathered) \<ge> 2 then clusters @ [fst gathered]
                         else clusters)
        in if length clusters1 \<ge> maxClustersPerPass cfg then clusters1
           else clusterLoop env cfg tempIndex idToRecord records (snd gathered) clusters1)"

definition hnswBasedClustering :: "env \<Rightarrow> config \<Rightarrow> MemoryRecord list \<Rightarrow> MemoryRecord list list" where
  "hnswBasedClustering env cfg records =
     (let tempIndex = fold (\<lambda>r ix. snd (insertWithMetadata (embedding r) (id_only (rid r)) ix))
                        records empty_index;
          idToRecord = map_of (rev (map (\<lambda>r. (rid r, r)) records))
      in clusterLoop env cfg tempIndex idToRecord records [] [])"

text \<open>The \<open>try\<close> block of \<open>consolidate\<close>.\<close>

definition consolidate_body ::
  "env \<Rightarrow> bool \<Rightarrow> scmp \<Rightarrow> ((error + obj list) \<times> scmp) option" where
  "consolidate_body env simulate s =
     (case on_warm store_count s of
        (Inl e, s1) \<Rightarrow> Some (Inl e, s1)
      | (Inr warmCount, s1) \<Rightarrow>
          if warmCount < 2 then Some (Inr [], s1)
          else
            (case on_warm store_getAll s1 of
               (Inl e, s2) \<Rightarrow> Some (Inl e, s2)
             | (Inr warmRaw, s2) \<Rightarrow>
                 (case (if useAdvancedClustering (config s2)
                           \<and> warmCount \<ge> advancedClusteringThreshold (config s2)
                        then (case mapE (fromWarm env) warmRaw of
                                Inl e \<Rightarrow> Some (Inl e, s2)
                              | Inr allRecords \<Rightarrow>
                                  Some (processClusters env simulate
                                    (hnswBasedClustering env (config s2) allRecords) s2))
                        else chunkLoop env simulate (consolidationChunkSize (config s2))
                               warmRaw 0 [] s2) of
                    None \<Rightarrow> None
                  | Some (Inl e, s3) \<Rightarrow> Some (Inl e, s3)
                  | Some (Inr allUpdated, s3) \<Rightarrow>
                      Some (andThen (if \<not> simulate then updateAll allUpdated s3
                                     else (Inr (), s3))
                        (\<lambda>_ s4. (Inr allUpdated, s4\<lparr>recordsSinceConsolidation := 0\<rparr>))))))"

definition consolidate ::
  "env \<Rightarrow> bool \<Rightarrow> scmp \<Rightarrow> ((error + obj list) \<times> scmp) option" where
  "consolidate env simulate s =
     (if \<not> initialized s then Some (Inl NotInitialized, s)
      else if lock_consolidate s then Some (Inr [], s)
      else
        map_option
          (\<lambda>(r, s1). ((case r of Inl e \<Rightarrow> Inl (ConsolidationFailed e) | Inr x \<Rightarrow> Inr x),
                      s1\<lparr>lock_consolidate := False\<rparr>))
          (consolidate_body env simulate (s\<lparr>lock_consolidate := True\<rparr>)))"

section \<open>Start-up\<close>

definition loadOrCreateKey :: "env \<Rightarrow> scmp \<Rightarrow> (error + unit) \<times> scmp" where
  "loadOrCreateKey env s =
     andThen (on_meta (store_get ''encryption_key'') s) (\<lambda>keyData s1.
       case keyData of
         Some _ \<Rightarrow> (Inr (), s1)
       | None \<Rightarrow> on_meta (store_put ''encryption_key'' (Jwk (generateKey env))) s1)"

definition loadOrCreateSalt :: "env \<Rightarrow> scmp \<Rightarrow> (error + unit) \<times> scmp" where
  "loadOrCreateSalt env s =
     andThen (on_meta (store_get ''salt'') s) (\<lambda>saltData s1.
       case saltData of
         Some (SaltValue v) \<Rightarrow> (Inr (), s1\<lparr>salt := v\<rparr>)
       | Some _ \<Rightarrow> (Inr (), s1\<lparr>salt := []\<rparr>)
       | None \<Rightarrow>
           andThen (on_meta (store_put ''salt'' (SaltValue (randomUUID env)))
                      (s1\<lparr>salt := randomUUID env\<rparr>))
             (\<lambda>_ s2. (Inr (), s2)))"

definition initialize :: "env \<Rightarrow> scmp \<Rightarrow> (error + unit) \<times> scmp" where
  "initialize env s =
     (if initialized s then (Inr (), s)
      else rethrow InitializationFailed
        (andThen (on_warm store_open s) (\<lambda>_ s1.
         andThen (on_cold store_open s1) (\<lambda>_ s2.
         andThen (on_journal store_open s2) (\<lambda>_ s3.
         andThen (on_meta store_open s3) (\<lambda>_ s4.
         andThen (loadOrCreateKey env s4) (\<lambda>_ s5.
         andThen (loadOrCreateSalt env s5) (\<lambda>_ s6.
         andThen (loadJournalCounter s6) (\<lambda>_ s7.
           (Inr (), s7\<lparr>hnswHot := dflt empty_index (savedHot s7),
                       hnswWarm := dflt empty_index (savedWarm s7),
                       initialized := True\<rparr>))))))))))"

text \<open>
  \<open>new SCMP(config)\<close> in a later session, over the databases and saved indexes an earlier
  instance left: every in-memory field has its constructor value, the stores are closed.
\<close>

definition closed :: "('k, 'v) store \<Rightarrow> ('k, 'v) store" where
  "closed st = st\<lparr>isOpen := False\<rparr>"

definition new_SCMP :: "config \<Rightarrow> scmp \<Rightarrow> scmp" where
  "new_SCMP cfg old =
     \<lparr> config = cfg,
       warmStore = closed (warmStore old), coldStore = closed (coldStore old),
       journalStore = closed (journalStore old), metaStore = closed (metaStore old),
       hnswHot = empty_index, hnswWarm = empty_index,
       savedHot = savedHot old, savedWarm = savedWarm old,
       initialized = False, salt = [], recordsSinceConsolidation = 0, journalCounter = 0,
       deletionsSinceCompaction = 0, mutationsSinceLastSave = 0,
       lock_search = False, lock_consolidate = False, lock_prune = False,
       lock_compact = False, scheduled = [] \<rparr>"

section \<open>Records the code can hold\<close>

text \<open>
  The values a \<open>MemoryRecord\<close> object can take: the constructor makes it, and the code
  then calls \<open>access\<close>, multiplies the importance by 0.8, or assigns one of the fields
  \<open>semantic_cluster_id\<close>, \<open>hnswHotId\<close>, \<open>hnswWarmId\<close>, \<open>currentTier\<close>, \<open>embedding\<close> and
  \<open>embeddingHash\<close>. No statement of the source assigns another field.
\<close>

inductive reachable_record :: "MemoryRecord \<Rightarrow> bool" where
  constructed: "reachable_record (new_MemoryRecord now0 a)"
| accessed: "reachable_record r \<Longrightarrow> reachable_record (access now1 simulate r)"
| attenuated: "reachable_record r \<Longrightarrow> reachable_record (attenuate r)"
| assigned: "reachable_record r \<Longrightarrow>
     reachable_record (r\<lparr>semantic_cluster_id := c, hnswHotId := h, hnswWarmId := w,
                         currentTier := t, embedding := e, embeddingHash := eh\<rparr>)"

section \<open>A small engine for concrete runs\<close>

text \<open>\<open>new SCMP(config)\<close> on databases that do not exist yet.\<close>

definition empty_store :: "('k, 'v) store" where
  "empty_store = \<lparr> isOpen = False, broken = False, items = [], calls = [] \<rparr>"

definition fresh_SCMP :: "config \<Rightarrow> scmp" where
  "fresh_SCMP cfg =
     \<lparr> config = cfg,
       warmStore = empty_store, coldStore = empty_store,
       journalStore = empty_store, metaStore = empty_store,
       hnswHot = empty_index, hnswWarm = empty_index,
       savedHot = None, savedWarm = None,
       initialized = False, salt = [], recordsSinceConsolidation = 0, journalCounter = 0,
       deletionsSinceCompaction = 0, mutationsSinceLastSave = 0,
       lock_search = False, lock_consolidate = False, lock_prune = False,
       lock_compact = False, scheduled = [] \<rparr>"

text \<open>
  Collaborators for the concrete runs: the clock stands at 0, a text is embedded as the
  one-component vector of its length, the hash is the identity, the index search returns
  the first \<open>k\<close> live nodes with score 1, and clustering puts all vectors in one cluster.
\<close>

definition demo_env :: env where
  "demo_env =
     \<lparr> now = 0,
       ollama_request = (\<lambda>t. Some [real (length t)]),
       ollama_generate = (\<lambda>p. Some ''S''),
       sha256 = (\<lambda>t. t),
       toFixed8 = (\<lambda>x. if x = 1 then ''1'' else ''2''),
       showNumber = (\<lambda>n. ''0''),
       randomText = (\<lambda>i. ''r''),
       searchBQ = (\<lambda>ix q k. take k
          (map (\<lambda>n. \<lparr> h_metadata = n_meta n, h_embedding = n_vector n, h_score = Num 1 \<rparr>)
             (filter (\<lambda>n. \<not> n_deleted n) (nodes ix)))),
       quantizeFloat16 = (\<lambda>v. v), dequantizeFloat16 = (\<lambda>v. v),
       hcluster = (\<lambda>vs. [vs]),
       generateKey = ''k'', randomUUID = ''u'' \<rparr>"

definition demo_options :: options where
  "demo_options = \<lparr> opt_episodic = None, opt_importance = None, opt_metadata = None \<rparr>"

definition demo_engine :: scmp where
  "demo_engine = snd (initialize demo_env (fresh_SCMP default_config))"

definition demo_args :: args where
  "demo_args =
     \<lparr> a_id = ''a'', a_embedding = [1], a_text = ''t'',
       a_timestamp = Some 0, a_lastAccessed = None, a_episodic = None,
       a_importance = Some (Num 3), a_usage_count = None, a_semantic_cluster_id = None,
       a_integrity_hash = ''h'', a_currentTier = Some WARM, a_embeddingHash = None,
       a_metadata = None, a_hnswHotId = None, a_hnswWarmId = None \<rparr>"

definition journal_broken_engine :: scmp where
  "journal_broken_engine =
     demo_engine\<lparr>journalStore := (journalStore demo_engine)\<lparr>broken := True\<rparr>\<rparr>"

definition warm_broken_engine :: scmp where
  "warm_broken_engine = demo_engine\<lparr>warmStore := (warmStore demo_engine)\<lparr>broken := True\<rparr>\<rparr>"

text \<open>An engine that rotates its journal at one entry, after one journal append.\<close>

definition rotating_engine :: scmp where
  "rotating_engine =
     snd (appendJournal demo_env (new_MemoryRecord 0 demo_args)
            (demo_engine\<lparr>config := (config demo_engine)\<lparr>journalRotationSize := 1\<rparr>\<rparr>))"

text \<open>An engine with two COLD records, one of importance 0 and one of importance 1.\<close>

definition cold_engine :: scmp where
  "cold_engine =
     snd (storeCold (new_MemoryRecord 0 (demo_args\<lparr>a_id := ''keep''\<rparr>))
       (snd (storeCold (new_MemoryRecord 0 (demo_args\<lparr>a_id := ''drop'', a_importance := Some (Num 0)\<rparr>))
          demo_engine)))"


text \<open>An engine whose meta store rejects writes.\<close>

definition meta_broken_engine :: scmp where
  "meta_broken_engine = demo_engine\<lparr>metaStore := (metaStore demo_engine)\<lparr>broken := True\<rparr>\<rparr>"

text \<open>The engine after \<open>applyPromotion\<close> has promoted the record of \<open>demo_args\<close>.\<close>

definition promoted_engine :: scmp where
  "promoted_engine = snd (applyPromotion demo_env (new_MemoryRecord 0 demo_args) False demo_engine)"

text \<open>An engine with one record whose metadata is \<open>{ category: 'y' }\<close>, and two filters.\<close>

definition tagged_engine :: scmp where
  "tagged_engine =
     snd (createMemoryRecord demo_env ''a''
            (demo_options\<lparr>opt_metadata := Some [(''category'', ''y'')]\<rparr>) demo_engine)"

definition category_filter :: filters where
  "category_filter =
     \<lparr> f_episodic = None, f_minImportance = None, f_others = [(''category'', ''x'')] \<rparr>"

definition no_filter :: filters where
  "no_filter = \<lparr> f_episodic = None, f_minImportance = None, f_others = [] \<rparr>"

text \<open>An engine after two calls of \<open>createMemoryRecord\<close>.\<close>

definition pair_engine :: scmp where
  "pair_engine =
     snd (createMemoryRecord demo_env ''bb'' demo_options
            (snd (createMemoryRecord demo_env ''a'' demo_options demo_engine)))"

section \<open>Notions used to state the properties\<close>

subsection \<open>Pruning\<close>

text \<open>
  The rule of pruning in the words of the specification, read off a stored COLD object:
  its weight is the product of its stored importance (brought into [0,1]), of the decay
  of its age and of the temporal weight of its age, the age counted from its stored
  timestamp; it is to be pruned when that weight is below \<open>epsilon\<close> and its stored usage
  count is 0.
\<close>

definition stored_weight :: "int \<Rightarrow> obj \<Rightarrow> number" where
  "stored_weight t v =
     clamp01 (o_importance v)
     * Num (Math_exp (- real_of_int (t - o_timestamp v) / (14 * 24 * 60 * 60 * 1000)))
     * Num (1 / (1 + real_of_int (t - o_timestamp v) / (7 * 24 * 60 * 60 * 1000)))"

definition prunable_row :: "env \<Rightarrow> config \<Rightarrow> obj \<Rightarrow> bool" where
  "prunable_row env cfg v \<longleftrightarrow>
     stored_weight (now env) v < epsilon cfg \<and> o_usage_count v = 0"

text \<open>
  The record \<open>prune\<close> builds from a stored COLD object that has an embedding, and the
  shape of a COLD store: keys are the objects' ids (the key path of the store is \<open>id\<close>),
  no key occurs twice, every object has an embedding.
\<close>

definition coldRecord :: "env \<Rightarrow> obj \<Rightarrow> MemoryRecord" where
  "coldRecord env v =
     new_MemoryRecord (now env) (spread v (dequantizeInt8 (dflt [] (o_embedding v))) COLD)"


text \<open>
  The state \<open>prune\<close> has reached after its scan when nothing fails: the lock taken, the
  prunable objects deleted one by one, the deletion counter raised by their number.
\<close>

definition after_deletions :: "env \<Rightarrow> scmp \<Rightarrow> scmp" where
  "after_deletions env s =
     s\<lparr>lock_prune := True,
       coldStore := (coldStore s)
         \<lparr>items := filter (\<lambda>kv. \<not> prunable_row env (config s) (snd kv)) (items (coldStore s)),
          calls := calls (coldStore s) @ GetAll #
                   map (\<lambda>kv. Delete (fst kv))
                     (filter (\<lambda>kv. prunable_row env (config s) (snd kv)) (items (coldStore s)))\<rparr>,
       deletionsSinceCompaction := deletionsSinceCompaction s
          + length (filter (\<lambda>kv. prunable_row env (config s) (snd kv)) (items (coldStore s)))\<rparr>"

subsection \<open>Journal ids\<close>

text \<open>
  The keys of the \<open>put\<close> calls made on a store, in order: for the journal store, the ids
  given to journal entries. \<open>persisted_counter\<close> is the counter as the meta store holds
  it. The invariant \<open>journal_inv\<close>: the ids written so far increase strictly, none exceeds
  the persisted counter, and an initialised engine's counter is not below the persisted
  one.
\<close>

fun put_keys :: "'k call list \<Rightarrow> 'k list" where
  "put_keys [] = []"
| "put_keys (Put k # cs) = k # put_keys cs"
| "put_keys (c # cs) = put_keys cs"

definition persisted_counter :: "scmp \<Rightarrow> nat" where
  "persisted_counter s =
     (case map_of (items (metaStore s)) ''journal_counter'' of
        Some (CounterValue v) \<Rightarrow> v
      | _ \<Rightarrow> 0)"

definition journal_inv :: "scmp \<Rightarrow> bool" where
  "journal_inv s \<longleftrightarrow>
     sorted_wrt (<) (put_keys (calls (journalStore s)))
     \<and> list_all (\<lambda>k. k \<le> persisted_counter s) (put_keys (calls (journalStore s)))
     \<and> (initialized s \<longrightarrow> persisted_counter s \<le> journalCounter s)"

text \<open>
  Steps that touch the journal, each completed before the next starts: an awaited
  \<open>appendJournal\<close>, a \<open>rotateJournal\<close>, and a restart (a new instance over what the old one
  persisted, then \<open>initialize\<close>).
\<close>

datatype journal_op = Append MemoryRecord | Rotate | Restart config

fun run_op :: "env \<Rightarrow> journal_op \<Rightarrow> scmp \<Rightarrow> scmp" where
  "run_op env (Append r) s = snd (appendJournal env r s)"
| "run_op env Rotate s = snd (rotateJournal s)"
| "run_op env (Restart cfg) s = snd (initialize env (new_SCMP cfg s))"

fun run_ops :: "env \<Rightarrow> journal_op list \<Rightarrow> scmp \<Rightarrow> scmp" where
  "run_ops env [] s = s"
| "run_ops env (x # xs) s = run_ops env xs (run_op env x s)"

text \<open>What the journal invariant reads of a state, and what a restart keeps of it.\<close>

definition jv :: "scmp \<Rightarrow> nat list \<times> nat \<times> bool" where
  "jv s = (put_keys (calls (journalStore s)), persisted_counter s, initialized s)"

definition restarted_ok :: "scmp \<Rightarrow> scmp \<Rightarrow> bool" where
  "restarted_ok s t \<longleftrightarrow>
     put_keys (calls (journalStore t)) = put_keys (calls (journalStore s))
     \<and> persisted_counter t = persisted_counter s
     \<and> (initialized t \<longrightarrow> journalCounter t = persisted_counter s)"

subsection \<open>Simulated calls\<close>

text \<open>A state without the records of which store methods were called.\<close>

definition forget_calls :: "scmp \<Rightarrow> scmp" where
  "forget_calls s =
     s\<lparr>warmStore := (warmStore s)\<lparr>calls := []\<rparr>, coldStore := (coldStore s)\<lparr>calls := []\<rparr>,
       journalStore := (journalStore s)\<lparr>calls := []\<rparr>, metaStore := (metaStore s)\<lparr>calls := []\<rparr>\<rparr>"

subsection \<open>Search filters\<close>

text \<open>The two filters \<open>search\<close> applies, as a test on a returned object.\<close>

definition passes :: "filters \<Rightarrow> obj \<Rightarrow> bool" where
  "passes fs ob \<longleftrightarrow>
     (case f_episodic fs of None \<Rightarrow> True | Some b \<Rightarrow> o_episodic ob = b)
     \<and> (case f_minImportance fs of
          None \<Rightarrow> True
        | Some m \<Rightarrow> \<not> truthy m \<or> \<not> o_importance ob < m)"

subsection \<open>The COLD scan\<close>

text \<open>
  The scan goes on after its first \<open>m\<close> slices: they could be scored, the array is not
  exhausted, and (for \<open>m > 0\<close>) the pool is still below \<open>5 \<cdot> limit\<close>.
\<close>

definition goes_on :: "env \<Rightarrow> vec \<Rightarrow> nat \<Rightarrow> bool \<Rightarrow> nat \<Rightarrow> obj list \<Rightarrow> nat \<Rightarrow> hit list \<Rightarrow> nat \<Rightarrow> bool" where
  "goes_on env q limit simulate chunkSize allRecords i scored m \<longleftrightarrow>
     (case mapE (scoreCold env q simulate) (take (m * chunkSize) (drop i allRecords)) of
        Inl e \<Rightarrow> False
      | Inr p \<Rightarrow> (m > 0 \<longrightarrow> length (scored @ p) < limit * 5)
                 \<and> i + m * chunkSize < length allRecords)"

section \<open>Basic facts about the model\<close>

lemmas store_defs = on_warm_def on_cold_def on_journal_def on_meta_def store_open_def
  store_put_def store_get_def store_getAll_def store_delete_def store_count_def store_clear_def
  called_def available_def andThen_def rethrow_def

lemmas journal_defs = appendJournal_all_def incrementJournalCounter_issue_def
  incrementJournalCounter_return_def incrementJournalCounter_def appendJournal_rest_def
  appendJournal_def

lemma andThen_Inr [simp]: "andThen (Inr x, s) f = f x s"
  by (simp add: andThen_def)

lemma andThen_Inl [simp]: "andThen (Inl e, s) f = (Inl e, s)"
  by (simp add: andThen_def)

lemma called_simps [simp]:
  "items (called c st) = items st" "isOpen (called c st) = isOpen st"
  "broken (called c st) = broken st" "available (called c st) = available st"
  "calls (called c st) = calls st @ [c]"
  by (simp_all add: called_def available_def)

lemma filter_absent_key:
  "map_of xs k = None \<Longrightarrow> filter (\<lambda>kv. fst kv \<noteq> k) xs = xs"
  by (induction xs) (auto split: if_splits)

lemma demo_engine_value:
  "demo_engine =
     \<lparr> config = default_config,
       warmStore = \<lparr> isOpen = True, broken = False, items = [], calls = [] \<rparr>,
       coldStore = \<lparr> isOpen = True, broken = False, items = [], calls = [] \<rparr>,
       journalStore = \<lparr> isOpen = True, broken = False, items = [], calls = [] \<rparr>,
       metaStore = \<lparr> isOpen = True, broken = False,
          items = [(''encryption_key'', Jwk ''k''), (''salt'', SaltValue ''u'')],
          calls = [Get ''encryption_key'', Put ''encryption_key'', Get ''salt'',
                   Put ''salt'', Get ''journal_counter''] \<rparr>,
       hnswHot = empty_index, hnswWarm = empty_index,
       savedHot = None, savedWarm = None,
       initialized = True, salt = ''u'', recordsSinceConsolidation = 0, journalCounter = 0,
       deletionsSinceCompaction = 0, mutationsSinceLastSave = 0,
       lock_search = False, lock_consolidate = False, lock_prune = False,
       lock_compact = False, scheduled = [] \<rparr>"
  by (simp add: demo_engine_def initialize_def fresh_SCMP_def empty_store_def loadOrCreateKey_def
      loadOrCreateSalt_def loadJournalCounter_def store_defs demo_env_def dflt_def empty_index_def)


section \<open>The weight of a record\<close>

lemma Math_exp_0 [simp]: "Math_exp 0 = 1"
  by (simp add: Math_exp_def)

lemma Math_exp_bounds: "0 \<le> Math_exp x" "x \<le> 0 \<Longrightarrow> Math_exp x \<le> 1"
  by (simp_all add: Math_exp_def)

lemma exp_underflows: "exp (x::real) \<le> 1 / 2 ^ 1075 \<longleftrightarrow> x \<le> - (1075 * ln 2)"
proof -
  have "exp (1075 * ln (2::real)) = exp (ln 2) ^ 1075"
    using exp_of_nat_mult[of 1075 "ln (2::real)"] by (simp only: of_nat_numeral)
  then have "exp (- (1075 * ln (2::real))) = 1 / exp (ln 2) ^ 1075"
    by (simp only: exp_minus inverse_eq_divide)
  also have "\<dots> = 1 / 2 ^ 1075" by (simp only: exp_ln zero_less_numeral)
  finally have e: "exp (- (1075 * ln (2::real))) = 1 / 2 ^ 1075" .
  have "exp x \<le> exp (- (1075 * ln 2)) \<longleftrightarrow> x \<le> - (1075 * ln 2)"
    by (rule exp_le_cancel_iff)
  then show ?thesis by (simp only: e)
qed

lemma ln_2_half: "1 / 2 \<le> ln (2::real)"
proof -
  have "exp (1 / 2 :: real) \<le> 1 + 1 / 2 + (1 / 2)\<^sup>2" by (rule exp_bound) simp_all
  then have "exp (1 / 2 :: real) \<le> 2" by (simp add: power2_eq_square)
  then show ?thesis by (metis ln_ge_iff zero_less_numeral)
qed

lemma Math_exp_positive_iff: "0 < Math_exp x \<longleftrightarrow> - (1075 * ln 2) < x"
  unfolding Math_exp_def by (simp only: exp_underflows if_distrib[of "\<lambda>y. 0 < y"] exp_gt_zero less_irrefl not_le if_bool_eq_conj simp_thms)

lemma Math_exp_underflow:
  assumes "x \<le> - 1075"
  shows "Math_exp x = 0"
proof -
  have "ln (2::real) \<le> 1" using ln_le_minus_one[of "2::real"] by simp
  then have "x \<le> - (1075 * ln 2)" using assms by simp
  then show ?thesis unfolding Math_exp_def by (simp only: exp_underflows if_True)
qed

lemma number_cases: "n \<noteq> NaN \<Longrightarrow> \<exists>x. n = Num x"
  by (cases n) simp_all

lemma importance_new:
  "importance (new_MemoryRecord now0 a) \<noteq> NaN \<Longrightarrow>
   Num 0 \<le> importance (new_MemoryRecord now0 a) \<and> importance (new_MemoryRecord now0 a) \<le> Num 1"
  by (cases "dflt (Num (1/2)) (a_importance a)") (simp_all add: new_MemoryRecord_def)

lemma reachable_importance:
  "reachable_record r \<Longrightarrow> importance r \<noteq> NaN \<Longrightarrow> Num 0 \<le> importance r \<and> importance r \<le> Num 1"
proof (induction rule: reachable_record.induct)
  case (constructed now0 a)
  then show ?case by (rule importance_new)
next
  case (accessed r now1 simulate)
  then show ?case by (simp add: access_def split: if_splits)
next
  case (attenuated r)
  then show ?case by (cases "importance r") (simp_all add: attenuate_def)
next
  case (assigned r c h w t e eh)
  then show ?case by simp
qed

lemma decay_bounds:
  assumes "timestamp r \<le> now1"
  shows "0 \<le> decay_score now1 r \<and> decay_score now1 r \<le> 1"
proof -
  have "- real_of_int (now1 - timestamp r) / halfLife \<le> 0"
    using assms by (simp add: halfLife_def)
  then show ?thesis
    unfolding decay_score_def by (simp only: Math_exp_bounds simp_thms)
qed

lemma decay_positive:
  "0 < decay_score now1 r \<longleftrightarrow> real_of_int (now1 - timestamp r) / halfLife < 1075 * ln 2"
  unfolding decay_score_def Math_exp_positive_iff by (auto simp add: halfLife_def)

lemma temporal_bounds:
  assumes "timestamp r \<le> now1"
  shows "0 < temporal_weight now1 r \<and> temporal_weight now1 r \<le> 1"
proof -
  have "0 \<le> real_of_int (now1 - timestamp r) / scale"
    using assms by (simp add: scale_def)
  then show ?thesis by (simp add: temporal_weight_def add_pos_nonneg)
qed

lemma weight_bounds:
  assumes "Num 0 \<le> importance r \<and> importance r \<le> Num 1" "timestamp r \<le> now1"
  shows "Num 0 \<le> effective_weight now1 r \<and> effective_weight now1 r \<le> Num 1"
proof -
  obtain i where i: "importance r = Num i" "0 \<le> i" "i \<le> 1"
    using assms(1) by (cases "importance r") simp_all
  have d: "0 \<le> decay_score now1 r" "decay_score now1 r \<le> 1"
    using decay_bounds[OF assms(2)] by auto
  have t: "0 < temporal_weight now1 r" "temporal_weight now1 r \<le> 1"
    using temporal_bounds[OF assms(2)] by auto
  have "i * decay_score now1 r \<le> 1 * 1"
    using i d by (intro mult_mono) auto
  then have "i * decay_score now1 r * temporal_weight now1 r \<le> 1 * 1"
    using t i d by (intro mult_mono) auto
  moreover have "0 \<le> i * decay_score now1 r * temporal_weight now1 r"
    using i d t by simp
  ultimately show ?thesis by (simp add: effective_weight_def i)
qed

text \<open>
  C9 as amended. Every record the code can hold (built by the constructor, then accessed,
  attenuated by 0.8 or assigned to in its other fields, any number of times) whose
  importance is a number has that importance in [0,1]; if its timestamp is not later
  than the current time, its decay score lies in [0,1] and is positive exactly while the
  age is below \<open>1075 ln 2\<close> (about 745.13) half-lives, its temporal weight lies in (0,1] and
  its effective weight lies in [0,1].
\<close>

theorem effective_weight_unit_interval:
  assumes "reachable_record r" and "importance r \<noteq> NaN" and "timestamp r \<le> now1"
  shows "Num 0 \<le> importance r \<and> importance r \<le> Num 1
       \<and> 0 \<le> decay_score now1 r \<and> decay_score now1 r \<le> 1
       \<and> (0 < decay_score now1 r \<longleftrightarrow>
            real_of_int (now1 - timestamp r) / (14 * 24 * 60 * 60 * 1000) < 1075 * ln 2)
       \<and> 0 < temporal_weight now1 r \<and> temporal_weight now1 r \<le> 1
       \<and> Num 0 \<le> effective_weight now1 r \<and> effective_weight now1 r \<le> Num 1"
  using reachable_importance[OF assms(1,2)] decay_bounds[OF assms(3)]
    temporal_bounds[OF assms(3)] decay_positive[of now1 r]
    weight_bounds[OF reachable_importance[OF assms(1,2)] assms(3)] by (simp add: halfLife_def)

theorem effective_weight_unit_interval_witness:
  "importance (attenuate (access 5 False (new_MemoryRecord 0 demo_args))) = Num (8/10)
   \<and> timestamp (attenuate (access 5 False (new_MemoryRecord 0 demo_args))) \<le> 5
   \<and> 0 < decay_score 5 (attenuate (access 5 False (new_MemoryRecord 0 demo_args)))
   \<and> Num 0 \<le> effective_weight 5 (attenuate (access 5 False (new_MemoryRecord 0 demo_args)))
   \<and> effective_weight 5 (attenuate (access 5 False (new_MemoryRecord 0 demo_args))) \<le> Num 1"
proof -
  have r: "reachable_record (attenuate (access 5 False (new_MemoryRecord 0 demo_args)))"
    by (intro reachable_record.intros)
  have t: "timestamp (attenuate (access 5 False (new_MemoryRecord 0 demo_args))) \<le> 5"
      "timestamp (attenuate (access 5 False (new_MemoryRecord 0 demo_args))) = 0"
    by (simp_all add: attenuate_def access_def new_MemoryRecord_def demo_args_def dflt_def)
  have i: "importance (attenuate (access 5 False (new_MemoryRecord 0 demo_args))) = Num (8/10)"
    by (simp add: attenuate_def access_def new_MemoryRecord_def demo_args_def dflt_def)
  have n: "importance (attenuate (access 5 False (new_MemoryRecord 0 demo_args))) \<noteq> NaN"
    by (simp add: i)
  have a: "real_of_int (5 - 0) / (14 * 24 * 60 * 60 * 1000) < 1075 * ln 2"
  proof -
    have "real_of_int (5 - 0) / (14 * 24 * 60 * 60 * 1000) < 1075 * (1/2)" by simp
    also have "\<dots> \<le> 1075 * ln 2" using ln_2_half by simp
    finally show ?thesis .
  qed
  show ?thesis using effective_weight_unit_interval[OF r n t(1)] t i a by simp
qed

text \<open>
  C9 as stated fails in two ways. An importance that is not a number passes through the
  constructor's clamp: \<open>createMemoryRecord\<close> with \<open>importance: NaN\<close> stores a record whose
  importance and effective weight are NaN, which is neither \<open>\<ge> 0\<close> nor \<open>\<le> 1\<close>. And the
  decay score of a record 1075 half-lives old is 0, outside (0,1].
\<close>

theorem effective_weight_outside_unit_interval:
  "importance (new_MemoryRecord 0 (demo_args\<lparr>a_importance := Some NaN\<rparr>)) = NaN
   \<and> effective_weight 0 (new_MemoryRecord 0 (demo_args\<lparr>a_importance := Some NaN\<rparr>)) = NaN
   \<and> \<not> Num 0 \<le> effective_weight 0 (new_MemoryRecord 0 (demo_args\<lparr>a_importance := Some NaN\<rparr>))
   \<and> \<not> effective_weight 0 (new_MemoryRecord 0 (demo_args\<lparr>a_importance := Some NaN\<rparr>)) \<le> Num 1
   \<and> map_sum id importance
        (fst (createMemoryRecord demo_env ''a'' (demo_options\<lparr>opt_importance := Some NaN\<rparr>) demo_engine))
       = Inr NaN
   \<and> timestamp (new_MemoryRecord 0 demo_args) \<le> 1300320000000
   \<and> decay_score 1300320000000 (new_MemoryRecord 0 demo_args) = 0"
proof -
  have n: "importance (new_MemoryRecord 0 (demo_args\<lparr>a_importance := Some NaN\<rparr>)) = NaN"
    by (simp add: new_MemoryRecord_def dflt_def)
  have c: "map_sum id importance
        (fst (createMemoryRecord demo_env ''a'' (demo_options\<lparr>opt_importance := Some NaN\<rparr>) demo_engine))
       = Inr NaN"
    by (simp add: demo_engine_value createMemoryRecord_def embed_def demo_env_def demo_options_def
      journal_defs store_defs storeWarm_def new_MemoryRecord_def dflt_def toJSON_def hash_def
      hashEmbedding_def default_config_def insertWithMetadata_def empty_index_def trackMutation_def
      Let_def)
  have t: "timestamp (new_MemoryRecord 0 demo_args) = 0"
    by (simp add: new_MemoryRecord_def demo_args_def dflt_def)
  have d: "decay_score 1300320000000 (new_MemoryRecord 0 demo_args) = 0"
    unfolding decay_score_def t by (rule Math_exp_underflow) (simp add: halfLife_def)
  show ?thesis using n c t d by (simp add: effective_weight_def)
qed

section \<open>Promotion\<close>

lemma on_warm_get:
  "available (warmStore s) \<Longrightarrow>
   on_warm (store_get k) s
     = (Inr (map_of (items (warmStore s)) k), s\<lparr>warmStore := called (Get k) (warmStore s)\<rparr>)"
  by (simp add: on_warm_def store_get_def)

lemma on_cold_get:
  "available (coldStore s) \<Longrightarrow>
   on_cold (store_get k) s
     = (Inr (map_of (items (coldStore s)) k), s\<lparr>coldStore := called (Get k) (coldStore s)\<rparr>)"
  by (simp add: on_cold_def store_get_def)

lemma on_warm_delete:
  "available (warmStore s) \<Longrightarrow>
   on_warm (store_delete k) s
     = (Inr (), s\<lparr>warmStore := called (Delete k)
                ((warmStore s)\<lparr>items := filter (\<lambda>kv. fst kv \<noteq> k) (items (warmStore s))\<rparr>)\<rparr>)"
  by (simp add: on_warm_def store_delete_def)

lemma on_cold_delete:
  "available (coldStore s) \<Longrightarrow>
   on_cold (store_delete k) s
     = (Inr (), s\<lparr>coldStore := called (Delete k)
                ((coldStore s)\<lparr>items := filter (\<lambda>kv. fst kv \<noteq> k) (items (coldStore s))\<rparr>)\<rparr>)"
  by (simp add: on_cold_def store_delete_def)

lemma applyPromotion_not: 
  "initialized s \<Longrightarrow> \<not> shouldPromote env s r \<Longrightarrow> applyPromotion env r simulate s = (Inr (None, r), s)"
  by (simp add: applyPromotion_def)

lemma applyPromotion_simulated: 
  "initialized s \<Longrightarrow> shouldPromote env s r \<Longrightarrow> applyPromotion env r True s = (Inr (Some HOT, r), s)"
  by (simp add: applyPromotion_def)

lemma applyPromotion_does:
  assumes "initialized s" "available (warmStore s)" "available (coldStore s)"
    "shouldPromote env s r"
  shows "fst (applyPromotion env r False s)
           = Inr (Some HOT, r\<lparr>hnswHotId := Some (fst (insertWithMetadata (embedding r) (toJSON r) (hnswHot s))),
                               currentTier := HOT\<rparr>)
    \<and> items (warmStore (snd (applyPromotion env r False s)))
           = filter (\<lambda>kv. fst kv \<noteq> rid r) (items (warmStore s))
    \<and> items (coldStore (snd (applyPromotion env r False s)))
           = filter (\<lambda>kv. fst kv \<noteq> rid r) (items (coldStore s))
    \<and> hnswHot (snd (applyPromotion env r False s))
           = snd (insertWithMetadata (embedding r) (toJSON r) (hnswHot s))
    \<and> hnswWarm (snd (applyPromotion env r False s))
           = (case hnswWarmId r of None \<Rightarrow> hnswWarm s | Some w \<Rightarrow> softDelete w (hnswWarm s))"
  using assms
  by (auto simp add: applyPromotion_def on_warm_get on_cold_get on_warm_delete on_cold_delete
      filter_absent_key Let_def split: option.splits)

text \<open>
  C6. On an initialised engine whose WARM and COLD stores answer: a record is promoted
  exactly when its effective weight is at least \<open>I_hot\<close> or its usage count at least
  \<open>U_hot\<close>. When it is not, \<open>applyPromotion\<close> returns null and leaves record and engine
  as they were. When it is, a simulated call returns HOT and changes nothing, and a real
  call deletes the record's id from the WARM store and from the COLD store, inserts
  embedding and JSON into the HOT index, records the handle returned on the record,
  soft-deletes the record's WARM handle if it has one, and sets the tier to HOT.
\<close>

theorem promotion_rule_and_application:
  assumes "initialized s" and "available (warmStore s)" and "available (coldStore s)"
  shows "(shouldPromote env s r \<longleftrightarrow>
            effective_weight (now env) r \<ge> I_hot (config s) \<or> usage_count r \<ge> U_hot (config s))
       \<and> (\<not> shouldPromote env s r \<longrightarrow> applyPromotion env r simulate s = (Inr (None, r), s))
       \<and> (shouldPromote env s r \<longrightarrow>
            applyPromotion env r True s = (Inr (Some HOT, r), s)
          \<and> fst (applyPromotion env r False s)
               = Inr (Some HOT,
                   r\<lparr>hnswHotId := Some (fst (insertWithMetadata (embedding r) (toJSON r) (hnswHot s))),
                     currentTier := HOT\<rparr>)
          \<and> items (warmStore (snd (applyPromotion env r False s)))
               = filter (\<lambda>kv. fst kv \<noteq> rid r) (items (warmStore s))
          \<and> items (coldStore (snd (applyPromotion env r False s)))
               = filter (\<lambda>kv. fst kv \<noteq> rid r) (items (coldStore s))
          \<and> hnswHot (snd (applyPromotion env r False s))
               = snd (insertWithMetadata (embedding r) (toJSON r) (hnswHot s))
          \<and> hnswWarm (snd (applyPromotion env r False s))
               = (case hnswWarmId r of
                    None \<Rightarrow> hnswWarm s
                  | Some w \<Rightarrow> softDelete w (hnswWarm s)))"
  using applyPromotion_not[OF assms(1)] applyPromotion_simulated[OF assms(1)]
    applyPromotion_does[OF assms]
  by (simp add: shouldPromote_def)

lemma demo_record_weight: "effective_weight 0 (new_MemoryRecord 0 demo_args) = Num 1"
  by (simp add: effective_weight_def decay_score_def temporal_weight_def new_MemoryRecord_def
      demo_args_def dflt_def)

theorem promotion_rule_and_application_witness:
  "initialized demo_engine \<and> available (warmStore demo_engine) \<and> available (coldStore demo_engine)
   \<and> shouldPromote demo_env demo_engine (new_MemoryRecord 0 demo_args)
   \<and> fst (applyPromotion demo_env (new_MemoryRecord 0 demo_args) False demo_engine)
       = Inr (Some HOT, (new_MemoryRecord 0 demo_args)\<lparr>hnswHotId := Some 0, currentTier := HOT\<rparr>)
   \<and> \<not> shouldPromote demo_env demo_engine (new_MemoryRecord 0 (demo_args\<lparr>a_importance := Some (Num 0)\<rparr>))
   \<and> applyPromotion demo_env (new_MemoryRecord 0 (demo_args\<lparr>a_importance := Some (Num 0)\<rparr>)) False demo_engine
       = (Inr (None, new_MemoryRecord 0 (demo_args\<lparr>a_importance := Some (Num 0)\<rparr>)), demo_engine)"
proof -
  have i: "initialized demo_engine" "available (warmStore demo_engine)"
      "available (coldStore demo_engine)"
    by (simp_all add: demo_engine_value available_def)
  have p: "shouldPromote demo_env demo_engine (new_MemoryRecord 0 demo_args)"
    using demo_record_weight
    by (simp add: shouldPromote_def demo_env_def demo_engine_value default_config_def)
  have n: "\<not> shouldPromote demo_env demo_engine (new_MemoryRecord 0 (demo_args\<lparr>a_importance := Some (Num 0)\<rparr>))"
    by (simp add: shouldPromote_def demo_env_def demo_engine_value default_config_def
        effective_weight_def new_MemoryRecord_def demo_args_def dflt_def)
  have h: "fst (insertWithMetadata (embedding (new_MemoryRecord 0 demo_args))
             (toJSON (new_MemoryRecord 0 demo_args)) (hnswHot demo_engine)) = 0"
    by (simp add: insertWithMetadata_def demo_engine_value empty_index_def)
  show ?thesis
    using promotion_rule_and_application[OF i, of demo_env "new_MemoryRecord 0 demo_args" False]
      promotion_rule_and_application[OF i, of demo_env
        "new_MemoryRecord 0 (demo_args\<lparr>a_importance := Some (Num 0)\<rparr>)" False]
      i p n h by simp
qed

section \<open>Journal rotation\<close>

text \<open>
  C10. On an initialised engine whose journal store answers, \<open>rotateJournal\<close> counts the
  entries; with at least \<open>journalRotationSize\<close> of them it clears the store, which is
  empty afterwards, and with fewer it leaves the entries as they are. Nothing else of the
  engine changes: the counter in memory and the meta store that holds the persisted
  counter are the same, so the next journal id is the one it would have been.
\<close>

theorem rotateJournal_discards_log:
  assumes "initialized s" and "available (journalStore s)"
  shows "rotateJournal s =
           (Inr (),
            s\<lparr>journalStore := (journalStore s)
               \<lparr>items := (if length (items (journalStore s)) \<ge> journalRotationSize (config s)
                          then [] else items (journalStore s)),
                calls := calls (journalStore s) @
                         (if length (items (journalStore s)) \<ge> journalRotationSize (config s)
                          then [Count, Clear] else [Count])\<rparr>\<rparr>)
       \<and> journalCounter (snd (rotateJournal s)) = journalCounter s
       \<and> metaStore (snd (rotateJournal s)) = metaStore s
       \<and> fst (incrementJournalCounter (snd (rotateJournal s))) = fst (incrementJournalCounter s)"
  using assms
  by (simp add: rotateJournal_def store_defs journal_defs Let_def split: prod.splits)

lemma rotating_engine_value:
  "initialized rotating_engine \<and> available (journalStore rotating_engine)
   \<and> map fst (items (journalStore rotating_engine)) = [1]
   \<and> journalRotationSize (config rotating_engine) = 1
   \<and> journalCounter rotating_engine = 1"
  by (simp add: rotating_engine_def demo_engine_value journal_defs store_defs default_config_def)

theorem rotateJournal_discards_log_witness:
  "initialized rotating_engine \<and> available (journalStore rotating_engine)
   \<and> map fst (items (journalStore rotating_engine)) = [1]
   \<and> items (journalStore (snd (rotateJournal rotating_engine))) = []
   \<and> journalCounter (snd (rotateJournal rotating_engine)) = 1
   \<and> items (journalStore (snd (rotateJournal demo_engine))) = items (journalStore demo_engine)"
proof -
  have r: "initialized rotating_engine" "available (journalStore rotating_engine)"
    using rotating_engine_value by simp_all
  have l: "length (items (journalStore rotating_engine)) = 1"
    using rotating_engine_value by (metis length_map list.size(3,4) One_nat_def add_0)
  have d: "initialized demo_engine" "available (journalStore demo_engine)"
    by (simp_all add: demo_engine_value available_def)
  have c: "journalRotationSize (config demo_engine) = 10000" "items (journalStore demo_engine) = []"
    by (simp_all add: demo_engine_value default_config_def)
  show ?thesis
    using rotateJournal_discards_log[OF r] rotateJournal_discards_log[OF d] rotating_engine_value l c
    by simp
qed

section \<open>The write path\<close>

lemma appendJournal_rest_frame:
  "warmStore (appendJournal_rest env r j s) = warmStore s
   \<and> initialized (appendJournal_rest env r j s) = initialized s
   \<and> hnswWarm (appendJournal_rest env r j s) = hnswWarm s"
  by (auto simp add: appendJournal_rest_def on_journal_def split: sum.splits prod.splits)

lemma appendJournal_frame:
  "warmStore (snd (appendJournal env r s)) = warmStore s
   \<and> initialized (snd (appendJournal env r s)) = initialized s
   \<and> hnswWarm (snd (appendJournal env r s)) = hnswWarm s"
  by (auto simp add: appendJournal_def incrementJournalCounter_def incrementJournalCounter_issue_def
      on_meta_def appendJournal_rest_frame Let_def split: prod.splits)

lemma appendJournal_returns:
  "initialized s \<Longrightarrow> fst (appendJournal env r s) = Inr ()"
  by (simp add: appendJournal_def split: prod.splits)

lemma storeWarm_raises:
  "isl (fst (storeWarm env r s)) \<longleftrightarrow> \<not> initialized s \<or> \<not> available (warmStore s)"
  by (simp add: storeWarm_def on_warm_def store_put_def Let_def available_def)

lemma isl_rethrow: "isl (fst (rethrow w m)) = isl (fst m)"
  by (simp add: rethrow_def split: prod.splits sum.splits)

lemma isl_andThen:
  "isl (fst (andThen m f)) \<longleftrightarrow> isl (fst m) \<or> (\<exists>x. fst m = Inr x \<and> isl (fst (f x (snd m))))"
  by (cases m; cases "fst m") (auto simp: andThen_def)

lemma journal_then_warm_raises:
  assumes "initialized s" and "\<And>x s'. \<not> isl (fst (k x s'))"
  shows "isl (fst (andThen (appendJournal env r s) (\<lambda>_ s1. andThen (storeWarm env r s1) k)))
           \<longleftrightarrow> \<not> available (warmStore s)"
proof -
  obtain s1 where a: "appendJournal env r s = (Inr (), s1)"
    using appendJournal_returns[OF assms(1), of env r]
    by (cases "appendJournal env r s") auto
  have f: "warmStore s1 = warmStore s" "initialized s1"
    using appendJournal_frame[of env r s] a assms(1) by auto
  show ?thesis
    using a f assms(2) storeWarm_raises[of env r s1] by (auto simp: isl_andThen)
qed


lemma map_of_put_item: "map_of (put_item k v xs) = (map_of xs)(k \<mapsto> v)"
  by (induction xs) (auto simp: fun_eq_iff)

lemma appendJournal_unavailable:
  "\<not> available (journalStore s) \<Longrightarrow>
   items (journalStore (snd (appendJournal env r s))) = items (journalStore s)"
  by (auto simp add: appendJournal_def incrementJournalCounter_def incrementJournalCounter_issue_def
      incrementJournalCounter_return_def appendJournal_rest_def on_meta_def on_journal_def
      store_put_def Let_def split: prod.splits sum.splits)

lemma storeWarm_does:
  assumes "initialized s" and "available (warmStore s)"
  shows "storeWarm env r s =
     (Inr (r\<lparr>hnswWarmId := Some (next_id (hnswWarm s))\<rparr>),
      s\<lparr>hnswWarm := snd (insertWithMetadata (embedding r) (toJSON r) (hnswWarm s)),
        warmStore := called (Put (rid r))
          ((warmStore s)\<lparr>items :=
             put_item (rid r)
               ((toJSON (r\<lparr>hnswWarmId := Some (next_id (hnswWarm s))\<rparr>))
                  \<lparr>o_embedding := Some (quantizeFloat16 env (embedding r))\<rparr>)
               (items (warmStore s))\<rparr>)\<rparr>)"
  using assms
  by (simp add: storeWarm_def on_warm_def store_put_def Let_def insertWithMetadata_def toJSON_def)

lemma frame_trackMutation [simp]:
  "warmStore (trackMutation s) = warmStore s" "coldStore (trackMutation s) = coldStore s"
  "journalStore (trackMutation s) = journalStore s" "metaStore (trackMutation s) = metaStore s"
  "hnswHot (trackMutation s) = hnswHot s" "hnswWarm (trackMutation s) = hnswWarm s"
  "deletionsSinceCompaction (trackMutation s) = deletionsSinceCompaction s"
  by (simp_all add: trackMutation_def Let_def)

lemma createMemoryRecord_fails:
  "\<not> initialized s \<or> text' = [] \<or> isl (embed env text') \<or> \<not> available (warmStore s) \<Longrightarrow>
   isl (fst (createMemoryRecord env text' opts s))"
proof (cases "initialized s \<and> text' \<noteq> []")
  case False
  then show ?thesis by (auto simp: createMemoryRecord_def)
next
  case True
  assume a: "\<not> initialized s \<or> text' = [] \<or> isl (embed env text') \<or> \<not> available (warmStore s)"
  show ?thesis
  proof (cases "embed env text'")
    case (Inl e)
    with True show ?thesis by (simp add: createMemoryRecord_def rethrow_def)
  next
    case (Inr v)
    with True a show ?thesis
      by (simp add: createMemoryRecord_def isl_rethrow Let_def journal_then_warm_raises)
  qed
qed

lemma createMemoryRecord_stores:
  assumes "initialized s" and "text' \<noteq> []" and "embed env text' = Inr v"
    and "available (warmStore s)"
  shows "\<exists>r s1 s4. createMemoryRecord env text' opts s
            = (Inr (r\<lparr>hnswWarmId := Some (next_id (hnswWarm s))\<rparr>), s4)
       \<and> appendJournal env r s = (Inr (), s1)
       \<and> rid r = hash env s (text' @ showNumber env (now env) @ randomText env 0)
       \<and> rtext r = text' \<and> embedding r = v \<and> currentTier r = WARM
       \<and> importance r = clamp01 (dflt (Num (1/2)) (opt_importance opts))
       \<and> hnswWarmId r = None
       \<and> hnswWarm s4 = snd (insertWithMetadata v (toJSON r) (hnswWarm s))
       \<and> items (warmStore s4)
           = put_item (rid r)
               ((toJSON (r\<lparr>hnswWarmId := Some (next_id (hnswWarm s))\<rparr>))
                  \<lparr>o_embedding := Some (quantizeFloat16 env v)\<rparr>)
               (items (warmStore s))
       \<and> journalStore s4 = journalStore s1"
proof -
  let ?r = "new_MemoryRecord (now env)
                   \<lparr> a_id = hash env s (text' @ showNumber env (now env) @ randomText env 0),
                     a_embedding = v, a_text = text',
                     a_timestamp = None, a_lastAccessed = None,
                     a_episodic = Some (dflt True (opt_episodic opts)),
                     a_importance = Some (dflt (Num (1/2)) (opt_importance opts)),
                     a_usage_count = None, a_semantic_cluster_id = None,
                     a_integrity_hash = hash env s text', a_currentTier = Some WARM,
                     a_embeddingHash = Some (hashEmbedding env v),
                     a_metadata = Some (dflt [] (opt_metadata opts)),
                     a_hnswHotId = None, a_hnswWarmId = None \<rparr>"
  obtain s1 where a: "appendJournal env ?r s = (Inr (), s1)"
    using appendJournal_returns[OF assms(1), of env ?r]
    by (cases "appendJournal env ?r s") auto
  have f: "warmStore s1 = warmStore s" "initialized s1" "hnswWarm s1 = hnswWarm s"
    using appendJournal_frame[of env ?r s] a assms(1) by auto
  have w: "available (warmStore s1)" using f(1) assms(4) by simp
  have e: "embedding ?r = v" "rid ?r = hash env s (text' @ showNumber env (now env) @ randomText env 0)"
      "rtext ?r = text'" "currentTier ?r = WARM" "hnswWarmId ?r = None"
      "importance ?r = clamp01 (dflt (Num (1/2)) (opt_importance opts))"
    by (simp_all add: new_MemoryRecord_def dflt_def)
  show ?thesis
    apply (rule exI[of _ ?r])
    apply (rule exI[of _ s1])
    using assms(1,2,3) a e
    by (simp add: createMemoryRecord_def rethrow_def Let_def storeWarm_does[OF f(2) w] f)
qed

text \<open>
  C4 as amended. \<open>createMemoryRecord\<close> raises an error, and returns no record, if the
  engine is not initialised, the text is empty, the embedding cannot be obtained, or the
  WARM store rejects the write. If none of these is the case it returns a record, whatever
  the journal store and the meta store do with the writes of \<open>appendJournal\<close>: the record
  has the given text, the embedding obtained, the tier WARM and the handle of a new node
  of the WARM index, that node carries the embedding and the record's JSON as it was
  before the handle was assigned, and the WARM store holds under the record's id its JSON
  with the float16 embedding. If the journal store rejects writes, its entries are the
  same afterwards: the call has succeeded without a journal entry for the record.
\<close>

theorem createMemoryRecord_surfaces_all_but_journal:
  "(\<not> initialized s \<or> text' = [] \<or> isl (embed env text') \<or> \<not> available (warmStore s)
      \<longrightarrow> isl (fst (createMemoryRecord env text' opts s)))
   \<and> (initialized s \<and> text' \<noteq> [] \<and> embed env text' = Inr v \<and> available (warmStore s)
      \<longrightarrow> (\<exists>r. fst (createMemoryRecord env text' opts s) = Inr r
            \<and> rtext r = text' \<and> embedding r = v \<and> currentTier r = WARM
            \<and> importance r = clamp01 (dflt (Num (1/2)) (opt_importance opts))
            \<and> hnswWarmId r = Some (next_id (hnswWarm s))
            \<and> nodes (hnswWarm (snd (createMemoryRecord env text' opts s)))
                = nodes (hnswWarm s)
                  @ [\<lparr> n_id = next_id (hnswWarm s), n_vector = v,
                       n_meta = toJSON (r\<lparr>hnswWarmId := None\<rparr>), n_deleted = False \<rparr>]
            \<and> map_of (items (warmStore (snd (createMemoryRecord env text' opts s))))
                = (map_of (items (warmStore s)))
                    (rid r \<mapsto> (toJSON r)\<lparr>o_embedding := Some (quantizeFloat16 env v)\<rparr>)
            \<and> (\<not> available (journalStore s) \<longrightarrow>
                 items (journalStore (snd (createMemoryRecord env text' opts s)))
                   = items (journalStore s))))"
proof (intro conjI impI)
  assume "\<not> initialized s \<or> text' = [] \<or> isl (embed env text') \<or> \<not> available (warmStore s)"
  then show "isl (fst (createMemoryRecord env text' opts s))" by (rule createMemoryRecord_fails)
next
  assume h: "initialized s \<and> text' \<noteq> [] \<and> embed env text' = Inr v \<and> available (warmStore s)"
  obtain r s1 s4 where c:
    "createMemoryRecord env text' opts s = (Inr (r\<lparr>hnswWarmId := Some (next_id (hnswWarm s))\<rparr>), s4)"
    "appendJournal env r s = (Inr (), s1)"
    "rtext r = text'" "embedding r = v" "currentTier r = WARM"
    "importance r = clamp01 (dflt (Num (1/2)) (opt_importance opts))"
    "hnswWarmId r = None"
    "hnswWarm s4 = snd (insertWithMetadata v (toJSON r) (hnswWarm s))"
    "items (warmStore s4)
           = put_item (rid r)
               ((toJSON (r\<lparr>hnswWarmId := Some (next_id (hnswWarm s))\<rparr>))
                  \<lparr>o_embedding := Some (quantizeFloat16 env v)\<rparr>)
               (items (warmStore s))"
    "journalStore s4 = journalStore s1"
    using createMemoryRecord_stores[of s text' env v opts] h by blast
  have j: "\<not> available (journalStore s) \<longrightarrow> items (journalStore s4) = items (journalStore s)"
    using appendJournal_unavailable[of s env r] c(2,10) by simp
  have n: "(r\<lparr>hnswWarmId := Some (next_id (hnswWarm s))\<rparr>)\<lparr>hnswWarmId := None\<rparr> = r"
    using c(7) by simp
  show "\<exists>r. fst (createMemoryRecord env text' opts s) = Inr r
            \<and> rtext r = text' \<and> embedding r = v \<and> currentTier r = WARM
            \<and> importance r = clamp01 (dflt (Num (1/2)) (opt_importance opts))
            \<and> hnswWarmId r = Some (next_id (hnswWarm s))
            \<and> nodes (hnswWarm (snd (createMemoryRecord env text' opts s)))
                = nodes (hnswWarm s)
                  @ [\<lparr> n_id = next_id (hnswWarm s), n_vector = v,
                       n_meta = toJSON (r\<lparr>hnswWarmId := None\<rparr>), n_deleted = False \<rparr>]
            \<and> map_of (items (warmStore (snd (createMemoryRecord env text' opts s))))
                = (map_of (items (warmStore s)))
                    (rid r \<mapsto> (toJSON r)\<lparr>o_embedding := Some (quantizeFloat16 env v)\<rparr>)
            \<and> (\<not> available (journalStore s) \<longrightarrow>
                 items (journalStore (snd (createMemoryRecord env text' opts s)))
                   = items (journalStore s))"
    apply (rule exI[of _ "r\<lparr>hnswWarmId := Some (next_id (hnswWarm s))\<rparr>"])
    using c j by (simp add: n map_of_put_item insertWithMetadata_def)
qed

theorem createMemoryRecord_surfaces_all_but_journal_witness:
  "\<not> available (warmStore warm_broken_engine)
   \<and> isl (fst (createMemoryRecord demo_env ''a'' demo_options warm_broken_engine))
   \<and> initialized meta_broken_engine \<and> embed demo_env ''a'' = Inr [1]
   \<and> available (warmStore meta_broken_engine) \<and> \<not> available (metaStore meta_broken_engine)
   \<and> (\<exists>r. fst (createMemoryRecord demo_env ''a'' demo_options meta_broken_engine) = Inr r
         \<and> rtext r = ''a'' \<and> embedding r = [1] \<and> hnswWarmId r = Some 0
         \<and> map_of (items (warmStore (snd (createMemoryRecord demo_env ''a'' demo_options
                                              meta_broken_engine))))
             = [rid r \<mapsto> (toJSON r)\<lparr>o_embedding := Some [1]\<rparr>])
   \<and> initialized journal_broken_engine \<and> embed demo_env ''bb'' = Inr [2]
   \<and> available (warmStore journal_broken_engine) \<and> \<not> available (journalStore journal_broken_engine)
   \<and> (\<exists>r. fst (createMemoryRecord demo_env ''bb'' demo_options journal_broken_engine) = Inr r
         \<and> rtext r = ''bb'' \<and> embedding r = [2] \<and> hnswWarmId r = Some 0)
   \<and> items (journalStore (snd (createMemoryRecord demo_env ''bb'' demo_options journal_broken_engine)))
       = []"
proof -
  have w: "\<not> available (warmStore warm_broken_engine)"
    by (simp add: warm_broken_engine_def available_def)
  have m: "initialized meta_broken_engine" "embed demo_env ''a'' = Inr [1]"
    "available (warmStore meta_broken_engine)" "\<not> available (metaStore meta_broken_engine)"
    "next_id (hnswWarm meta_broken_engine) = 0" "items (warmStore meta_broken_engine) = []"
    "quantizeFloat16 demo_env [1] = [1]"
    by (simp_all add: meta_broken_engine_def demo_engine_value available_def embed_def
        demo_env_def empty_index_def)
  have j: "initialized journal_broken_engine" "embed demo_env ''bb'' = Inr [2]"
    "available (warmStore journal_broken_engine)"
    "\<not> available (journalStore journal_broken_engine)"
    "next_id (hnswWarm journal_broken_engine) = 0" "items (journalStore journal_broken_engine) = []"
    by (simp_all add: journal_broken_engine_def demo_engine_value available_def embed_def
        demo_env_def empty_index_def)
  have a: "isl (fst (createMemoryRecord demo_env ''a'' demo_options warm_broken_engine))"
    using createMemoryRecord_surfaces_all_but_journal
            [of warm_broken_engine "''a''" demo_env demo_options "[1]"] w
    by simp
  have b: "\<exists>r. fst (createMemoryRecord demo_env ''a'' demo_options meta_broken_engine) = Inr r
         \<and> rtext r = ''a'' \<and> embedding r = [1] \<and> hnswWarmId r = Some 0
         \<and> map_of (items (warmStore (snd (createMemoryRecord demo_env ''a'' demo_options
                                              meta_broken_engine))))
             = [rid r \<mapsto> (toJSON r)\<lparr>o_embedding := Some [1]\<rparr>]"
    using createMemoryRecord_surfaces_all_but_journal
            [of meta_broken_engine "''a''" demo_env demo_options "[1]"] m
    by auto
  have c: "(\<exists>r. fst (createMemoryRecord demo_env ''bb'' demo_options journal_broken_engine) = Inr r
         \<and> rtext r = ''bb'' \<and> embedding r = [2] \<and> hnswWarmId r = Some 0)
     \<and> items (journalStore (snd (createMemoryRecord demo_env ''bb'' demo_options journal_broken_engine)))
       = []"
    using createMemoryRecord_surfaces_all_but_journal
            [of journal_broken_engine "''bb''" demo_env demo_options "[2]"] j
    by auto
  show ?thesis using w m(1-4) j(1-4) a b c by simp
qed

lemma journal_broken_engine_value:
  "journal_broken_engine =
     \<lparr> config = default_config,
       warmStore = \<lparr> isOpen = True, broken = False, items = [], calls = [] \<rparr>,
       coldStore = \<lparr> isOpen = True, broken = False, items = [], calls = [] \<rparr>,
       journalStore = \<lparr> isOpen = True, broken = True, items = [], calls = [] \<rparr>,
       metaStore = \<lparr> isOpen = True, broken = False,
          items = [(''encryption_key'', Jwk ''k''), (''salt'', SaltValue ''u'')],
          calls = [Get ''encryption_key'', Put ''encryption_key'', Get ''salt'',
                   Put ''salt'', Get ''journal_counter''] \<rparr>,
       hnswHot = empty_index, hnswWarm = empty_index,
       savedHot = None, savedWarm = None,
       initialized = True, salt = ''u'', recordsSinceConsolidation = 0, journalCounter = 0,
       deletionsSinceCompaction = 0, mutationsSinceLastSave = 0,
       lock_search = False, lock_consolidate = False, lock_prune = False,
       lock_compact = False, scheduled = [] \<rparr>"
  by (simp add: journal_broken_engine_def demo_engine_value)

text \<open>
  C4 as stated fails: on an engine whose journal store rejects writes, the journal entry
  of the new record is not persisted, and \<open>createMemoryRecord\<close> returns the record.
\<close>

theorem createMemoryRecord_succeeds_over_failed_journal:
  "fst (on_journal (store_put 1 \<lparr> e_id = 1, e_timestamp = 0, e_record = id_only ''a'' \<rparr>)
          journal_broken_engine) = Inl StoreError
   \<and> \<not> isl (fst (createMemoryRecord demo_env ''a'' demo_options journal_broken_engine))
   \<and> items (journalStore (snd (createMemoryRecord demo_env ''a'' demo_options journal_broken_engine))) = []
   \<and> calls (journalStore (snd (createMemoryRecord demo_env ''a'' demo_options journal_broken_engine)))
       = [Put 1]
   \<and> map fst (items (warmStore (snd (createMemoryRecord demo_env ''a'' demo_options journal_broken_engine))))
       = [''a0ru'']"
  by (simp add: journal_broken_engine_value createMemoryRecord_def embed_def demo_env_def demo_options_def
      journal_defs store_defs storeWarm_def new_MemoryRecord_def dflt_def toJSON_def hash_def
      hashEmbedding_def default_config_def insertWithMetadata_def empty_index_def trackMutation_def
      Let_def)

section \<open>Pruning\<close>

lemma pruneLoop_simulate:
  "pruneLoop env True recs acc s = (Inr (acc @ map rid (filter (prunable env (config s)) recs)), s)"
  by (induction recs arbitrary: acc) auto






lemma rid_coldRecord [simp]: "rid (coldRecord env v) = o_id v"
  by (simp add: coldRecord_def new_MemoryRecord_def spread_def)






lemma getAllMetadata_compact [simp]:
  "getAllMetadata (compact_index ix) = getAllMetadata ix"
  by (simp add: getAllMetadata_def compact_index_def)





lemma frame_compactHNSW [simp]:
  "warmStore (compactHNSW s) = warmStore s" "coldStore (compactHNSW s) = coldStore s"
  "journalStore (compactHNSW s) = journalStore s" "metaStore (compactHNSW s) = metaStore s"
  "getAllMetadata (hnswHot (compactHNSW s)) = getAllMetadata (hnswHot s)"
  "getAllMetadata (hnswWarm (compactHNSW s)) = getAllMetadata (hnswWarm s)"
  by (simp_all add: compactHNSW_def save_def Let_def)

lemma frame_after_deletions [simp]:
  "warmStore (after_deletions env s) = warmStore s"
  "journalStore (after_deletions env s) = journalStore s"
  "metaStore (after_deletions env s) = metaStore s"
  "hnswHot (after_deletions env s) = hnswHot s" "hnswWarm (after_deletions env s) = hnswWarm s"
  "items (coldStore (after_deletions env s))
     = filter (\<lambda>kv. \<not> prunable_row env (config s) (snd kv)) (items (coldStore s))"
  by (simp_all add: after_deletions_def)




lemmas demo_defs = demo_env_def demo_options_def demo_args_def default_config_def

lemmas record_defs = new_MemoryRecord_def dflt_def toJSON_def spread_def access_def attenuate_def
  effective_weight_def decay_score_def temporal_weight_def

lemmas index_defs = insertWithMetadata_def softDelete_def updateMetadata_def compact_index_def
  getAllMetadata_def empty_index_def

section \<open>Integrity verification\<close>

lemma promoted_engine_hot:
  "map o_hnswHotId (getAllMetadata (hnswHot promoted_engine)) = [None]"
  "initialized promoted_engine"
  by (simp_all add: promoted_engine_def applyPromotion_def shouldPromote_def demo_engine_value
     store_defs demo_defs record_defs index_defs Let_def)

text \<open>
  C7 fails on the code. \<open>applyPromotion\<close> passes \<open>record.toJSON()\<close> to the HOT index before
  it assigns the handle, so the HOT metadata of a promoted record has no \<open>hnswHotId\<close>;
  \<open>quarantine\<close> finds the record in the HOT index only through that key. A promoted
  record whose text does not hash to its integrity hash is therefore reported by
  \<open>verifyIntegrity\<close>, stays in the HOT index, and is reported again by the next call.
\<close>

theorem verifyIntegrity_reports_hot_record_twice:
  "map o_hnswHotId (getAllMetadata (hnswHot promoted_engine)) = [None]
   \<and> fst (verifyIntegrity demo_env promoted_engine) = Inr [''a'']
   \<and> fst (verifyIntegrity demo_env (snd (verifyIntegrity demo_env promoted_engine))) = Inr [''a'']"
  by (simp add: promoted_engine_def applyPromotion_def shouldPromote_def demo_engine_value
     store_defs demo_defs record_defs index_defs Let_def verifyIntegrity_def getAllRecords_def
     quarantine_def quarantine_body_def hash_def)

section \<open>Search filters and the COLD scan\<close>

lemma tagged_engine_value:
  "tagged_engine =
     demo_engine\<lparr>
       warmStore := \<lparr> isOpen = True, broken = False,
          items = [(''a0ru'',
             \<lparr> o_id = ''a0ru'', o_text = ''a'', o_timestamp = 0, o_lastAccessed = 0,
               o_episodic = True, o_importance = Num (1/2), o_usage_count = 0,
               o_semantic_cluster_id = None, o_integrity_hash = ''au'',
               o_currentTier = Some WARM, o_metadata = [(''category'', ''y'')],
               o_hnswHotId = None, o_hnswWarmId = Some 0, o_embedding = Some [1] \<rparr>)],
          calls = [Put ''a0ru''] \<rparr>,
       journalStore := \<lparr> isOpen = True, broken = False,
          items = [(1, \<lparr> e_id = 1, e_timestamp = 0, e_record =
             \<lparr> o_id = ''a0ru'', o_text = ''a'', o_timestamp = 0, o_lastAccessed = 0,
               o_episodic = True, o_importance = Num (1/2), o_usage_count = 0,
               o_semantic_cluster_id = None, o_integrity_hash = ''au'',
               o_currentTier = Some WARM, o_metadata = [(''category'', ''y'')],
               o_hnswHotId = None, o_hnswWarmId = None, o_embedding = None \<rparr> \<rparr>)],
          calls = [Put 1, Count] \<rparr>,
       metaStore := \<lparr> isOpen = True, broken = False,
          items = [(''encryption_key'', Jwk ''k''), (''journal_counter'', CounterValue 1),
                   (''salt'', SaltValue ''u'')],
          calls = [Get ''encryption_key'', Put ''encryption_key'', Get ''salt'',
                   Put ''salt'', Get ''journal_counter'', Put ''journal_counter''] \<rparr>,
       hnswWarm := \<lparr> nodes = [\<lparr> n_id = 0, n_vector = [1], n_meta =
             \<lparr> o_id = ''a0ru'', o_text = ''a'', o_timestamp = 0, o_lastAccessed = 0,
               o_episodic = True, o_importance = Num (1/2), o_usage_count = 0,
               o_semantic_cluster_id = None, o_integrity_hash = ''au'',
               o_currentTier = Some WARM, o_metadata = [(''category'', ''y'')],
               o_hnswHotId = None, o_hnswWarmId = None, o_embedding = None \<rparr>,
             n_deleted = False \<rparr>], next_id = 1 \<rparr>,
       recordsSinceConsolidation := 1, journalCounter := 1, mutationsSinceLastSave := 1 \<rparr>"
  by (simp add: tagged_engine_def demo_engine_value createMemoryRecord_def embed_def demo_defs
      journal_defs store_defs storeWarm_def record_defs hash_def
      hashEmbedding_def index_defs trackMutation_def Let_def)

lemmas search_defs = search_def search_body_def chunkedColdSearch_def coldLoop.simps
  rescoreOne_def determineSimulatedTier_def applyPromotion_def applyDemotion_def
  shouldPromote_def shouldDemote_def reconstructEmbedding_def updateRecord_def topScored_def
  scoreCold_def cosineSimilarity_def merge_obj_def sortByScore_def

text \<open>
  C8 fails on the code. A search with the filter \<open>{ category: 'x' }\<close> returns the record
  whose metadata is \<open>{ category: 'y' }\<close>: \<open>search\<close> reads the keys \<open>episodic\<close> and
  \<open>minImportance\<close> of the filters and no other.
\<close>

theorem search_ignores_metadata_filter:
  "f_others category_filter = [(''category'', ''x'')]
   \<and> map_option (isl \<circ> fst) (search demo_env ''q'' 1 True category_filter tagged_engine) = Some False
   \<and> map_option (map_sum id (map (o_metadata \<circ> r_obj)) \<circ> fst)
        (search demo_env ''q'' 1 True category_filter tagged_engine)
       = Some (Inr ([(''category'', ''y'')] # []))"
  by (simp add: category_filter_def tagged_engine_value demo_engine_value search_defs embed_def
      demo_defs store_defs record_defs index_defs Let_def)

lemma cold_engine_value:
  "cold_engine =
     demo_engine\<lparr>coldStore := \<lparr> isOpen = True, broken = False,
        items = [(''drop'', \<lparr> o_id = ''drop'', o_text = ''t'', o_timestamp = 0, o_lastAccessed = 0,
               o_episodic = True, o_importance = Num 0, o_usage_count = 0,
               o_semantic_cluster_id = None, o_integrity_hash = ''h'',
               o_currentTier = Some WARM, o_metadata = [],
               o_hnswHotId = None, o_hnswWarmId = None, o_embedding = Some [127] \<rparr>),
                 (''keep'', \<lparr> o_id = ''keep'', o_text = ''t'', o_timestamp = 0, o_lastAccessed = 0,
               o_episodic = True, o_importance = Num 1, o_usage_count = 0,
               o_semantic_cluster_id = None, o_integrity_hash = ''h'',
               o_currentTier = Some WARM, o_metadata = [],
               o_hnswHotId = None, o_hnswWarmId = None, o_embedding = Some [127] \<rparr>)],
        calls = [Put ''drop'', Put ''keep''] \<rparr>\<rparr>"
  by (simp add: cold_engine_def storeCold_def demo_engine_value store_defs demo_defs
      record_defs quantizeInt8_def Let_def)

text \<open>
  C2 fails on the code in how the COLD store is read. \<open>_chunkedColdSearch\<close> calls \<open>count\<close>
  and then \<open>getAll\<close>, which returns every COLD object at once; \<open>iterateChunks\<close> is never
  called. The objects are then scored in slices of the array and the best are returned.
\<close>

theorem cold_search_reads_whole_store:
  "map_option (calls \<circ> coldStore \<circ> snd) (chunkedColdSearch demo_env [1] 2 True cold_engine)
     = Some [Put ''drop'', Put ''keep'', Count, GetAll]
   \<and> map_option (map_sum id (map (o_id \<circ> h_metadata)) \<circ> fst)
        (chunkedColdSearch demo_env [1] 2 True cold_engine)
     = Some (Inr [''keep'', ''drop''])
   \<and> map_option (calls \<circ> coldStore \<circ> snd) (search demo_env ''q'' 1 True no_filter cold_engine)
     = Some [Put ''drop'', Put ''keep'', Count, GetAll]
   \<and> map_option (map_sum id (map (o_id \<circ> r_obj)) \<circ> fst)
        (search demo_env ''q'' 1 True no_filter cold_engine)
     = Some (Inr [''keep''])"
  by (simp add: no_filter_def cold_engine_value demo_engine_value search_defs embed_def
      demo_defs store_defs record_defs index_defs Let_def dequantizeInt8_def)

section \<open>Simulated consolidation and the journal ids of a batch\<close>

lemma pair_engine_value:
  "pair_engine =
     demo_engine\<lparr>
       warmStore := \<lparr> isOpen = True, broken = False,
          items = [(''a0ru'',
             \<lparr> o_id = ''a0ru'', o_text = ''a'', o_timestamp = 0, o_lastAccessed = 0,
               o_episodic = True, o_importance = Num (1/2), o_usage_count = 0,
               o_semantic_cluster_id = None, o_integrity_hash = ''au'',
               o_currentTier = Some WARM, o_metadata = [],
               o_hnswHotId = None, o_hnswWarmId = Some 0, o_embedding = Some [1] \<rparr>),
                   (''bb0ru'',
             \<lparr> o_id = ''bb0ru'', o_text = ''bb'', o_timestamp = 0, o_lastAccessed = 0,
               o_episodic = True, o_importance = Num (1/2), o_usage_count = 0,
               o_semantic_cluster_id = None, o_integrity_hash = ''bbu'',
               o_currentTier = Some WARM, o_metadata = [],
               o_hnswHotId = None, o_hnswWarmId = Some 1, o_embedding = Some [2] \<rparr>)],
          calls = [Put ''a0ru'', Put ''bb0ru''] \<rparr>,
       journalStore := \<lparr> isOpen = True, broken = False,
          items = [(1, \<lparr> e_id = 1, e_timestamp = 0, e_record =
             \<lparr> o_id = ''a0ru'', o_text = ''a'', o_timestamp = 0, o_lastAccessed = 0,
               o_episodic = True, o_importance = Num (1/2), o_usage_count = 0,
               o_semantic_cluster_id = None, o_integrity_hash = ''au'',
               o_currentTier = Some WARM, o_metadata = [],
               o_hnswHotId = None, o_hnswWarmId = None, o_embedding = None \<rparr> \<rparr>),
                   (2, \<lparr> e_id = 2, e_timestamp = 0, e_record =
             \<lparr> o_id = ''bb0ru'', o_text = ''bb'', o_timestamp = 0, o_lastAccessed = 0,
               o_episodic = True, o_importance = Num (1/2), o_usage_count = 0,
               o_semantic_cluster_id = None, o_integrity_hash = ''bbu'',
               o_currentTier = Some WARM, o_metadata = [],
               o_hnswHotId = None, o_hnswWarmId = None, o_embedding = None \<rparr> \<rparr>)],
          calls = [Put 1, Count, Put 2, Count] \<rparr>,
       metaStore := \<lparr> isOpen = True, broken = False,
          items = [(''encryption_key'', Jwk ''k''), (''journal_counter'', CounterValue 2),
                   (''salt'', SaltValue ''u'')],
          calls = [Get ''encryption_key'', Put ''encryption_key'', Get ''salt'',
                   Put ''salt'', Get ''journal_counter'', Put ''journal_counter'',
                   Put ''journal_counter''] \<rparr>,
       hnswWarm := \<lparr> nodes = [\<lparr> n_id = 0, n_vector = [1], n_meta =
             \<lparr> o_id = ''a0ru'', o_text = ''a'', o_timestamp = 0, o_lastAccessed = 0,
               o_episodic = True, o_importance = Num (1/2), o_usage_count = 0,
               o_semantic_cluster_id = None, o_integrity_hash = ''au'',
               o_currentTier = Some WARM, o_metadata = [],
               o_hnswHotId = None, o_hnswWarmId = None, o_embedding = None \<rparr>,
             n_deleted = False \<rparr>,
             \<lparr> n_id = 1, n_vector = [2], n_meta =
             \<lparr> o_id = ''bb0ru'', o_text = ''bb'', o_timestamp = 0, o_lastAccessed = 0,
               o_episodic = True, o_importance = Num (1/2), o_usage_count = 0,
               o_semantic_cluster_id = None, o_integrity_hash = ''bbu'',
               o_currentTier = Some WARM, o_metadata = [],
               o_hnswHotId = None, o_hnswWarmId = None, o_embedding = None \<rparr>,
             n_deleted = False \<rparr>], next_id = 2 \<rparr>,
       recordsSinceConsolidation := 2, journalCounter := 2, mutationsSinceLastSave := 2 \<rparr>"
  by (simp add: pair_engine_def demo_engine_value createMemoryRecord_def embed_def demo_defs
      journal_defs store_defs storeWarm_def record_defs hash_def
      hashEmbedding_def index_defs trackMutation_def Let_def)

lemmas consolidate_defs = consolidate_def consolidate_body_def chunkLoop.simps fromWarm_def
  consolidateChunk_def getEmbeddingHash_def hashEmbedding_def processCluster_def centroid_def
  component_def List.map_filter_def hash_def applyPromotion_def applyDemotion_def
  shouldPromote_def shouldDemote_def

text \<open>
  C1 fails on the code for \<open>consolidate\<close>. \<open>_processCluster\<close> appends the summary record to
  the journal whether or not it simulates (only \<open>storeWarm\<close> is guarded), and
  \<open>consolidate\<close> resets \<open>recordsSinceConsolidation\<close> in both modes: a simulated
  consolidation of two WARM records adds journal entry 3, raises the counter in memory
  and in the meta store from 2 to 3, and zeroes the consolidation counter.
\<close>

theorem simulated_consolidate_writes_journal:
  "journalCounter pair_engine = 2
   \<and> map fst (items (journalStore pair_engine)) = [1, 2]
   \<and> map_of (items (metaStore pair_engine)) ''journal_counter'' = Some (CounterValue 2)
   \<and> recordsSinceConsolidation pair_engine = 2
   \<and> map_option (isl \<circ> fst) (consolidate demo_env True pair_engine) = Some False
   \<and> map_option (journalCounter \<circ> snd) (consolidate demo_env True pair_engine) = Some 3
   \<and> map_option (map fst \<circ> items \<circ> journalStore \<circ> snd) (consolidate demo_env True pair_engine)
       = Some [1, 2, 3]
   \<and> map_option (map_of \<circ> items \<circ> metaStore \<circ> snd) (consolidate demo_env True pair_engine)
       = Some (map_of [(''encryption_key'', Jwk ''k''), (''journal_counter'', CounterValue 3),
                       (''salt'', SaltValue ''u'')])
   \<and> map_option (recordsSinceConsolidation \<circ> snd) (consolidate demo_env True pair_engine) = Some 0"
  by (simp add: pair_engine_value demo_engine_value consolidate_defs
      demo_defs journal_defs store_defs record_defs index_defs Let_def)

text \<open>
  C3 fails on the code for the calls \<open>createMemoryRecords\<close> makes. It starts one
  \<open>appendJournal\<close> per record without awaiting any; each bumps the counter before the
  first continues, and each continuation reads the counter as it is by then. For two
  records both journal entries get id 2, and the second replaces the first in the store.
\<close>

theorem batch_journal_ids_collide:
  "map_sum id (map rtext) (fst (createMemoryRecords demo_env [''a'', ''bb''] demo_options demo_engine))
     = Inr [''a'', ''bb'']
   \<and> calls (journalStore (snd (createMemoryRecords demo_env [''a'', ''bb''] demo_options demo_engine)))
     = [Put 2, Count, Put 2, Count]
   \<and> map fst (items (journalStore (snd (createMemoryRecords demo_env [''a'', ''bb''] demo_options demo_engine))))
     = [2]
   \<and> map (o_text \<circ> e_record \<circ> snd)
        (items (journalStore (snd (createMemoryRecords demo_env [''a'', ''bb''] demo_options demo_engine))))
     = [''bb'']"
  by (simp add: demo_engine_value createMemoryRecords_def embed_def demo_defs
      journal_defs store_defs storeWarm_def record_defs hash_def
      hashEmbedding_def index_defs trackMutation_def Let_def upt_rec)

section \<open>Journal ids when every call is awaited\<close>

lemma put_keys_append [simp]: "put_keys (cs @ ds) = put_keys cs @ put_keys ds"
  by (induction cs rule: put_keys.induct) auto

lemma appendJournal_written:
  assumes "initialized s"
  shows "put_keys (calls (journalStore (snd (appendJournal env r s))))
           = put_keys (calls (journalStore s))
             @ (if available (metaStore s) then [journalCounter s + 1] else [])
       \<and> persisted_counter (snd (appendJournal env r s))
           = (if available (metaStore s) then journalCounter s + 1 else persisted_counter s)
       \<and> journalCounter (snd (appendJournal env r s)) = journalCounter s + 1
       \<and> initialized (snd (appendJournal env r s))"
  using assms
  by (auto simp add: journal_defs store_defs persisted_counter_def map_of_put_item Let_def
      split: prod.splits sum.splits)

lemma appendJournal_inv:
  assumes "journal_inv s"
  shows "journal_inv (snd (appendJournal env r s))"
proof (cases "initialized s")
  case False
  then show ?thesis using assms by (simp add: appendJournal_def)
next
  case True
  have k: "\<forall>k \<in> set (put_keys (calls (journalStore s))). k < journalCounter s + 1"
    using assms True by (auto simp: journal_inv_def list_all_iff)
  show ?thesis
    using assms True k appendJournal_written[OF True, of env r]
    by (auto simp: journal_inv_def sorted_wrt_append list_all_iff)
qed

lemma rotateJournal_inv:
  assumes "journal_inv s"
  shows "journal_inv (snd (rotateJournal s))"
  using assms
  by (auto simp add: rotateJournal_def store_defs journal_inv_def persisted_counter_def
      split: prod.splits sum.splits)

lemma snd_andThen:
  "snd (andThen m f) = (case fst m of Inl e \<Rightarrow> snd m | Inr x \<Rightarrow> snd (f x (snd m)))"
  by (cases m; cases "fst m") (auto simp: andThen_def)

lemma fst_andThen:
  "fst (andThen m f) = (case fst m of Inl e \<Rightarrow> Inl e | Inr x \<Rightarrow> fst (f x (snd m)))"
  by (cases m; cases "fst m") (auto simp: andThen_def)

lemma snd_rethrow [simp]: "snd (rethrow w m) = snd m"
  by (simp add: rethrow_def split: prod.splits sum.splits)

lemma jv_on_warm [simp]: "jv (snd (on_warm f s)) = jv s"
  by (simp add: jv_def on_warm_def persisted_counter_def split: prod.splits)

lemma jv_on_cold [simp]: "jv (snd (on_cold f s)) = jv s"
  by (simp add: jv_def on_cold_def persisted_counter_def split: prod.splits)

lemma jv_open_journal [simp]: "jv (snd (on_journal store_open s)) = jv s"
  by (simp add: jv_def on_journal_def store_open_def persisted_counter_def)

lemma jv_open_meta [simp]: "jv (snd (on_meta store_open s)) = jv s"
  by (simp add: jv_def on_meta_def store_open_def persisted_counter_def)

lemma jv_key [simp]: "jv (snd (loadOrCreateKey env s)) = jv s"
  by (simp add: jv_def loadOrCreateKey_def store_defs persisted_counter_def map_of_put_item
      split: option.splits)

lemma jv_salt [simp]: "jv (snd (loadOrCreateSalt env s)) = jv s"
  by (simp add: jv_def loadOrCreateSalt_def store_defs persisted_counter_def map_of_put_item
      split: option.splits meta_value.splits)

lemma jv_counter [simp]: "jv (snd (loadJournalCounter s)) = jv s"
  by (simp add: jv_def loadJournalCounter_def store_defs persisted_counter_def)

lemma loaded_counter:
  "fst (loadJournalCounter s) = Inr u \<Longrightarrow>
   journalCounter (snd (loadJournalCounter s)) = persisted_counter s"
  by (auto simp add: loadJournalCounter_def store_defs persisted_counter_def
      split: if_splits option.splits meta_value.splits)

lemma jv_new_SCMP: "jv (new_SCMP cfg s) = (put_keys (calls (journalStore s)), persisted_counter s, False)"
  by (simp add: jv_def new_SCMP_def closed_def persisted_counter_def)

lemma chain:
  assumes "jv (snd m) = jv s" and "\<not> initialized s"
    and "\<And>x. fst m = Inr x \<Longrightarrow> restarted_ok s (snd (f x (snd m)))"
  shows "restarted_ok s (snd (andThen m f))"
proof (cases "fst m")
  case (Inl e)
  then have "snd (andThen m f) = snd m" by (cases m) (simp add: andThen_def)
  then show ?thesis using assms(1,2) by (simp add: restarted_ok_def jv_def)
next
  case (Inr x)
  then have "snd (andThen m f) = snd (f x (snd m))" by (cases m) (simp add: andThen_def)
  then show ?thesis using assms(3)[OF Inr] by simp
qed

lemma final_step:
  assumes "jv t6 = jv s" and "fst (loadJournalCounter t6) = Inr u"
  shows "restarted_ok s ((snd (loadJournalCounter t6))
           \<lparr>hnswHot := a, hnswWarm := b, initialized := True\<rparr>)"
proof -
  have j: "jv (snd (loadJournalCounter t6)) = jv s" using assms(1) by simp
  have p: "persisted_counter t6 = persisted_counter s" using assms(1) by (simp add: jv_def)
  have c: "journalCounter (snd (loadJournalCounter t6)) = persisted_counter s"
    using loaded_counter[OF assms(2)] p by simp
  have q: "persisted_counter ((snd (loadJournalCounter t6))
             \<lparr>hnswHot := a, hnswWarm := b, initialized := True\<rparr>)
           = persisted_counter (snd (loadJournalCounter t6))"
    by (simp add: persisted_counter_def)
  show ?thesis using j c q by (simp add: restarted_ok_def jv_def)
qed

lemma initialize_steps:
  assumes "\<not> initialized s"
  shows "restarted_ok s (snd (initialize env s))"
proof -
  have "restarted_ok s (snd
        (andThen (on_warm store_open s) (\<lambda>_ s1.
         andThen (on_cold store_open s1) (\<lambda>_ s2.
         andThen (on_journal store_open s2) (\<lambda>_ s3.
         andThen (on_meta store_open s3) (\<lambda>_ s4.
         andThen (loadOrCreateKey env s4) (\<lambda>_ s5.
         andThen (loadOrCreateSalt env s5) (\<lambda>_ s6.
         andThen (loadJournalCounter s6) (\<lambda>_ s7.
           (Inr (), s7\<lparr>hnswHot := dflt empty_index (savedHot s7),
                       hnswWarm := dflt empty_index (savedWarm s7),
                       initialized := True\<rparr>))))))))))"
    apply (rule chain, simp, rule assms)
    apply (rule chain, simp, rule assms)
    apply (rule chain, simp, rule assms)
    apply (rule chain, simp, rule assms)
    apply (rule chain, simp, rule assms)
    apply (rule chain, simp, rule assms)
    apply (rule chain, simp, rule assms)
    apply (simp only: snd_conv)
    apply (rule final_step)
     apply simp
    apply assumption
    done
  then show ?thesis using assms by (simp add: initialize_def)
qed

lemma restart_inv:
  assumes "journal_inv s"
  shows "journal_inv (snd (initialize env (new_SCMP cfg s)))"
proof -
  have n: "\<not> initialized (new_SCMP cfg s)" by (simp add: new_SCMP_def)
  have k: "put_keys (calls (journalStore (new_SCMP cfg s))) = put_keys (calls (journalStore s))"
      "persisted_counter (new_SCMP cfg s) = persisted_counter s"
    using jv_new_SCMP[of cfg s] by (simp_all add: jv_def)
  show ?thesis
    using initialize_steps[OF n, of env] assms k
    by (simp add: restarted_ok_def journal_inv_def)
qed

lemma run_op_inv: "journal_inv s \<Longrightarrow> journal_inv (run_op env x s)"
  by (cases x) (simp_all add: appendJournal_inv rotateJournal_inv restart_inv)

lemma run_ops_inv: "journal_inv s \<Longrightarrow> journal_inv (run_ops env xs s)"
  by (induction xs arbitrary: s) (simp_all add: run_op_inv)

lemma fresh_inv: "journal_inv (fresh_SCMP cfg)"
  by (simp add: journal_inv_def fresh_SCMP_def empty_store_def)

lemma awaited_appends_strictly_increase:
  "sorted_wrt (<) (put_keys (calls (journalStore (run_ops env xs (fresh_SCMP cfg)))))"
  using run_ops_inv[OF fresh_inv, of env xs cfg] by (simp add: journal_inv_def)

lemma awaited_append_gets_next_id:
  assumes "initialized s" and "available (metaStore s)"
  shows "put_keys (calls (journalStore (snd (appendJournal env r s))))
           = put_keys (calls (journalStore s)) @ [journalCounter s + 1]
       \<and> persisted_counter (snd (appendJournal env r s)) = journalCounter s + 1"
  using appendJournal_written[OF assms(1), of env r] assms(2) by simp

section \<open>Simulated search and prune\<close>

lemma forget_warm_read [simp]:
  "forget_calls (snd (on_warm (store_get k) s)) = forget_calls s"
  "forget_calls (snd (on_warm store_count s)) = forget_calls s"
  "forget_calls (snd (on_warm store_getAll s)) = forget_calls s"
  by (simp_all add: forget_calls_def store_defs)

lemma forget_cold_read [simp]:
  "forget_calls (snd (on_cold (store_get k) s)) = forget_calls s"
  "forget_calls (snd (on_cold store_count s)) = forget_calls s"
  "forget_calls (snd (on_cold store_getAll s)) = forget_calls s"
  by (simp_all add: forget_calls_def store_defs)

lemma forget_andThen:
  assumes "forget_calls (snd m) = forget_calls s"
    and "\<And>x. fst m = Inr x \<Longrightarrow> forget_calls (snd (f x (snd m))) = forget_calls s"
  shows "forget_calls (snd (andThen m f)) = forget_calls s"
  using assms by (cases m; cases "fst m") (auto simp: andThen_def)

lemma same_andThen:
  assumes "snd m = s" and "\<And>x. fst m = Inr x \<Longrightarrow> snd (f x s) = s"
  shows "snd (andThen m f) = s"
  using assms by (cases m; cases "fst m") (auto simp: andThen_def)

lemma reconstructEmbedding_reads:
  "forget_calls (snd (reconstructEmbedding env i t s)) = forget_calls s"
proof -
  have w: "forget_calls (snd (andThen (on_warm (store_get i) s) (\<lambda>warmRec s1.
          case warmRec of
            Some w \<Rightarrow> (case o_embedding w of
                         Some e \<Rightarrow> (Inr (dequantizeFloat16 env e), s1)
                       | None \<Rightarrow> (Inl ReconstructFailed, s1))
          | None \<Rightarrow> (Inl ReconstructFailed, s1)))) = forget_calls s"
    by (rule forget_andThen) (simp_all split: option.splits)
  have c: "forget_calls (snd (andThen (on_cold (store_get i) s) (\<lambda>coldRec s1.
          case coldRec of
            Some c \<Rightarrow> (case o_embedding c of
                         Some e \<Rightarrow> (Inr (dequantizeInt8 e), s1)
                       | None \<Rightarrow> (Inl ReconstructFailed, s1))
          | None \<Rightarrow> (Inl ReconstructFailed, s1)))) = forget_calls s"
    by (rule forget_andThen) (simp_all split: option.splits)
  show ?thesis using w c by (simp add: reconstructEmbedding_def)
qed

lemma applyPromotion_simulate: "snd (applyPromotion env r True s) = s"
  by (simp add: applyPromotion_def)

lemma applyDemotion_simulate: "snd (applyDemotion env r True s) = s"
  by (simp add: applyDemotion_def)

lemma determineSimulatedTier_simulate: "snd (determineSimulatedTier env r True s) = s"
  unfolding determineSimulatedTier_def
  apply (rule same_andThen)
   apply (rule applyPromotion_simulate)
  apply (simp split: prod.splits option.splits)
  apply (intro allI impI conjI)
  apply (rule same_andThen)
   apply (rule applyDemotion_simulate)
  apply (simp split: prod.splits option.splits)
  done

lemma rescoreOne_simulate:
  "forget_calls (snd (rescoreOne env True fs res s)) = forget_calls s"
  unfolding rescoreOne_def Let_def
  apply (rule forget_andThen)
   apply (simp add: reconstructEmbedding_reads)
  apply (rule forget_andThen)
   apply (simp add: determineSimulatedTier_simulate reconstructEmbedding_reads split: if_splits)
  apply (simp add: determineSimulatedTier_simulate reconstructEmbedding_reads
         split: prod.splits if_splits)
  done

lemma rescore_simulate:
  "forget_calls (snd (rescore env True fs results s)) = forget_calls s"
proof (induction results arbitrary: s)
  case Nil
  show ?case by simp
next
  case (Cons res results)
  show ?case
    apply (simp only: rescore.simps)
    apply (rule forget_andThen)
     apply (rule rescoreOne_simulate)
    apply (rule forget_andThen)
     apply (simp add: Cons.IH rescoreOne_simulate)
    apply (simp add: Cons.IH rescoreOne_simulate)
    done
qed

lemma chunkedColdSearch_reads:
  "chunkedColdSearch env q limit simulate s = Some (r, s') \<Longrightarrow> forget_calls s' = forget_calls s"
  by (auto simp add: chunkedColdSearch_def forget_calls_def store_defs
      split: prod.splits sum.splits if_splits)

lemma search_tail_simulate:
  assumes "andThen (rescore env True fs hits s1) (\<lambda>rescored s2. (Inr (g rescored), s2)) = (r, s')"
  shows "forget_calls s' = forget_calls s1"
proof -
  have "forget_calls (snd (andThen (rescore env True fs hits s1)
           (\<lambda>rescored s2. (Inr (g rescored), s2)))) = forget_calls s1"
    by (rule forget_andThen) (simp_all add: rescore_simulate)
  then show ?thesis using assms by simp
qed

lemma search_body_simulate:
  assumes "search_body env queryText k True fs s = Some (r, s')"
  shows "forget_calls s' = forget_calls s"
  using assms
  by (auto simp add: search_body_def Let_def
      dest!: chunkedColdSearch_reads search_tail_simulate
      split: sum.splits option.splits prod.splits if_splits)

text \<open>
  What does hold of C1: a simulated search and a simulated prune leave every store's
  content, both indexes, all counters and all locks as they were; only reads are made.
\<close>

lemma search_simulate_changes_nothing:
  assumes "search env queryText k True fs s = Some (r, s')"
  shows "forget_calls s' = forget_calls s"
proof (cases "initialized s")
  case False
  then show ?thesis using assms by (simp add: search_def)
next
  case True
  then obtain r0 where "search_body env queryText k True fs s = Some (r0, s')"
    using assms by (auto simp: search_def split: prod.splits)
  then show ?thesis by (rule search_body_simulate)
qed

lemma prune_simulate_changes_nothing:
  "forget_calls (snd (prune env True s)) = forget_calls s"
proof (cases "initialized s \<and> \<not> lock_prune s")
  case False
  then show ?thesis by (auto simp: prune_def)
next
  case True
  have "forget_calls ((snd (prune_body env True (s\<lparr>lock_prune := True\<rparr>)))\<lparr>lock_prune := False\<rparr>)
          = forget_calls s"
    using True
    by (auto simp add: prune_body_def pruneLoop_simulate forget_calls_def store_defs
        split: sum.splits)
  then show ?thesis using True by (simp add: prune_def case_prod_beta)
qed

section \<open>The filters search applies\<close>

lemma set_insertByScore [simp]: "set (insertByScore f x ys) = insert x (set ys)"
  by (induction ys) auto

lemma set_sortByScore [simp]: "set (sortByScore f xs) = set xs"
  by (induction xs) (simp_all add: sortByScore_def)

lemma length_insertByScore [simp]: "length (insertByScore f x ys) = Suc (length ys)"
  by (induction ys) auto

lemma length_sortByScore [simp]: "length (sortByScore f xs) = length xs"
  by (induction xs) (simp_all add: sortByScore_def)

lemma rescoreOne_filters:
  assumes "rescoreOne env simulate fs res s = (Inr (Some e), s')"
  shows "passes fs (r_obj e)"
  using assms
  by (auto simp add: rescoreOne_def Let_def andThen_def toJSON_def passes_def
      split: prod.splits sum.splits if_splits option.splits)

lemma rescore_filters:
  "rescore env simulate fs results s = (Inr rs, s') \<Longrightarrow> \<forall>e \<in> set rs. passes fs (r_obj e)"
proof (induction results arbitrary: s rs s')
  case Nil
  then show ?case by simp
next
  case (Cons res results)
  obtain entry s1 where o: "rescoreOne env simulate fs res s = (Inr entry, s1)"
    using Cons.prems by (cases "rescoreOne env simulate fs res s"; cases "fst (rescoreOne env simulate fs res s)")
      (auto simp: andThen_def)
  obtain rest where r: "rescore env simulate fs results s1 = (Inr rest, s')"
      and rs: "rs = (case entry of None \<Rightarrow> [] | Some e \<Rightarrow> [e]) @ rest"
    using Cons.prems o
    by (cases "rescore env simulate fs results s1"; cases "fst (rescore env simulate fs results s1)")
      (auto simp: andThen_def)
  show ?case
    using Cons.IH[OF r] rs o rescoreOne_filters[of env simulate fs res s _ s1]
    by (auto split: option.splits)
qed

text \<open>
  What does hold of C8: every result of a search passes the \<open>episodic\<close> filter and the
  \<open>minImportance\<close> filter (a \<open>minImportance\<close> of 0 or NaN filters nothing).
\<close>

lemma search_applies_two_filters:
  assumes "search env queryText k simulate fs s = Some (Inr rs, s')"
  shows "\<forall>e \<in> set rs. passes fs (r_obj e)"
proof -
  have "\<exists>s0 s1. search_body env queryText k simulate fs s0 = Some (Inr rs, s1)"
  proof -
    obtain r0 s1 where m: "search_body env queryText k simulate fs
             (if \<not> simulate then s\<lparr>lock_search := True\<rparr> else s) = Some (r0, s1)"
        and r: "(case r0 of Inl e \<Rightarrow> Inl (SearchFailed e) | Inr x \<Rightarrow> Inr x) = Inr rs"
      using assms by (auto simp: search_def split: if_splits)
    from r have "r0 = Inr rs" by (cases r0) auto
    with m show ?thesis by blast
  qed
  then obtain s0 s1 where b: "search_body env queryText k simulate fs s0 = Some (Inr rs, s1)"
    by blast
  then obtain hits s2 rescored s3 where
    "rescore env simulate fs hits s2 = (Inr rescored, s3)"
    "rs = take k (sortByScore r_score rescored)"
    by (auto simp add: search_body_def Let_def andThen_def
        split: sum.splits option.splits prod.splits if_splits)
  then show ?thesis
    using rescore_filters[of env simulate fs hits s2 rescored s3]
    by (auto dest: in_set_takeD)
qed

section \<open>The COLD scan\<close>

lemma mapE_append:
  "mapE f (xs @ ys) =
     (case mapE f xs of
        Inl e \<Rightarrow> Inl e
      | Inr as \<Rightarrow> (case mapE f ys of Inl e \<Rightarrow> Inl e | Inr bs \<Rightarrow> Inr (as @ bs)))"
  by (induction xs) (auto split: sum.splits)

lemma scoreChunk_mapE:
  "scoreChunk env q simulate rows scored =
     (case mapE (scoreCold env q simulate) rows of
        Inl e \<Rightarrow> Inl e
      | Inr hs \<Rightarrow> Inr (scored @ hs))"
  by (induction rows arbitrary: scored) (auto split: sum.splits)

lemma take_chunks:
  "take (Suc n * c) (drop i xs) = take c (drop i xs) @ take (n * c) (drop (i + c) xs)"
  by (simp add: take_add add.commute)

text \<open>
  What does hold of C2. With a chunk size above 0 the scan returns. It scores the COLD
  objects slice by slice, \<open>n\<close> slices in all, stops after a slice once the pool holds
  \<open>5 \<cdot> limit\<close> entries or the array is exhausted, and returns the first \<open>limit\<close> entries of
  the pool sorted by descending score; an object that cannot be scored fails the scan.
\<close>

lemma coldLoop_result:
  assumes "chunkSize > 0"
  shows "\<exists>n. (case mapE (scoreCold env q simulate) (take (n * chunkSize) (drop i allRecords)) of
               Inl e \<Rightarrow> coldLoop env q limit simulate chunkSize allRecords i scored = Some (Inl e)
             | Inr new \<Rightarrow>
                 coldLoop env q limit simulate chunkSize allRecords i scored
                   = Some (Inr (topScored limit (scored @ new)))
                 \<and> (length allRecords \<le> i + n * chunkSize \<or> limit * 5 \<le> length (scored @ new)))"
proof (induction "length allRecords - i" arbitrary: i scored rule: less_induct)
  case less
  show ?case
  proof (cases "i < length allRecords")
    case False
    have "coldLoop env q limit simulate chunkSize allRecords i scored
            = Some (Inr (topScored limit scored))"
      using False by (subst coldLoop.simps) simp
    then show ?thesis using False by (intro exI[of _ 0]) simp
  next
    case True
    show ?thesis
    proof (cases "mapE (scoreCold env q simulate) (take chunkSize (drop i allRecords))")
      case (Inl e)
      have "coldLoop env q limit simulate chunkSize allRecords i scored = Some (Inl e)"
        using True Inl by (subst coldLoop.simps) (simp add: scoreChunk_mapE)
      then show ?thesis using Inl by (intro exI[of _ 1]) simp
    next
      case (Inr new1)
      show ?thesis
      proof (cases "limit * 5 \<le> length (scored @ new1)")
        case full: True
        have "coldLoop env q limit simulate chunkSize allRecords i scored
                = Some (Inr (topScored limit (scored @ new1)))"
          using True Inr full by (subst coldLoop.simps) (simp add: scoreChunk_mapE)
        then show ?thesis using Inr full by (intro exI[of _ 1]) simp
      next
        case more: False
        have step: "coldLoop env q limit simulate chunkSize allRecords i scored
                = coldLoop env q limit simulate chunkSize allRecords (i + chunkSize) (scored @ new1)"
          using True Inr more by (subst coldLoop.simps) (simp add: scoreChunk_mapE)
        have "length allRecords - (i + chunkSize) < length allRecords - i"
          using True assms by simp
        from less[OF this, of "scored @ new1"]
        obtain n where n: "(case mapE (scoreCold env q simulate)
                 (take (n * chunkSize) (drop (i + chunkSize) allRecords)) of
               Inl e \<Rightarrow> coldLoop env q limit simulate chunkSize allRecords (i + chunkSize)
                          (scored @ new1) = Some (Inl e)
             | Inr new \<Rightarrow>
                 coldLoop env q limit simulate chunkSize allRecords (i + chunkSize) (scored @ new1)
                   = Some (Inr (topScored limit ((scored @ new1) @ new)))
                 \<and> (length allRecords \<le> i + chunkSize + n * chunkSize
                    \<or> limit * 5 \<le> length ((scored @ new1) @ new)))"
          by blast
        have e: "mapE (scoreCold env q simulate) (take (Suc n * chunkSize) (drop i allRecords))
              = (case mapE (scoreCold env q simulate)
                        (take (n * chunkSize) (drop (i + chunkSize) allRecords)) of
                   Inl e \<Rightarrow> Inl e
                 | Inr bs \<Rightarrow> Inr (new1 @ bs))"
          by (simp only: take_chunks mapE_append Inr sum.case)
        show ?thesis
        proof (cases "mapE (scoreCold env q simulate)
                        (take (n * chunkSize) (drop (i + chunkSize) allRecords))")
          case (Inl e')
          then show ?thesis
            using n step e by (intro exI[of _ "Suc n"]) (simp only: sum.case)
        next
          case (Inr bs)
          have l: "i + chunkSize + n * chunkSize = i + Suc n * chunkSize" by simp
          show ?thesis
            using n step e Inr l
            by (intro exI[of _ "Suc n"]) (simp only: sum.case append_assoc)
        qed
      qed
    qed
  qed
qed

lemma coldLoop_returns:
  "chunkSize > 0 \<Longrightarrow> \<exists>y. coldLoop env q limit simulate chunkSize allRecords i scored = Some y"
proof -
  assume "chunkSize > 0"
  from coldLoop_result[where env = env and q = q and limit = limit and simulate = simulate
      and allRecords = allRecords and i = i and scored = scored, OF this]
  obtain n where n: "(case mapE (scoreCold env q simulate) (take (n * chunkSize) (drop i allRecords)) of
               Inl e \<Rightarrow> coldLoop env q limit simulate chunkSize allRecords i scored = Some (Inl e)
             | Inr new \<Rightarrow>
                 coldLoop env q limit simulate chunkSize allRecords i scored
                   = Some (Inr (topScored limit (scored @ new)))
                 \<and> (length allRecords \<le> i + n * chunkSize \<or> limit * 5 \<le> length (scored @ new)))"
    by blast
  show ?thesis
    using n
    by (cases "mapE (scoreCold env q simulate) (take (n * chunkSize) (drop i allRecords))") auto
qed

lemma number_le_trans: "(a::number) \<le> b \<Longrightarrow> b \<le> c \<Longrightarrow> a \<le> c"
  by (cases a; cases b; cases c) simp_all

lemma number_less_le: "(a::number) < b \<Longrightarrow> a \<le> b"
  by (cases a; cases b) simp_all

lemma number_not_less: "a \<noteq> NaN \<Longrightarrow> b \<noteq> NaN \<Longrightarrow> \<not> (a::number) < b \<Longrightarrow> b \<le> a"
  by (cases a; cases b) simp_all

lemma sorted_insertByScore:
  assumes "sorted_wrt (\<lambda>a b. f b \<le> f a) ys" and "f x \<noteq> NaN" and "\<forall>y \<in> set ys. f y \<noteq> NaN"
  shows "sorted_wrt (\<lambda>a b. f b \<le> f a) (insertByScore f x ys)"
  using assms
proof (induction ys)
  case Nil
  then show ?case by simp
next
  case (Cons y ys)
  show ?case
  proof (cases "f x < f y")
    case True
    then show ?thesis using Cons by (auto intro: number_less_le)
  next
    case False
    then have "f y \<le> f x" using Cons.prems by (intro number_not_less) simp_all
    then show ?thesis using Cons.prems False by (auto intro: number_le_trans)
  qed
qed

lemma sorted_sortByScore:
  "\<forall>x \<in> set xs. f x \<noteq> NaN \<Longrightarrow> sorted_wrt (\<lambda>a b. f b \<le> f a) (sortByScore f xs)"
proof (induction xs)
  case Nil
  then show ?case by (simp add: sortByScore_def)
next
  case (Cons x xs)
  have "sorted_wrt (\<lambda>a b. f b \<le> f a) (insertByScore f x (sortByScore f xs))"
    using Cons by (intro sorted_insertByScore) simp_all
  then show ?case by (simp add: sortByScore_def)
qed

lemma topScored_sorted:
  "(list_all (\<lambda>h. h_score h \<noteq> NaN) pool \<longrightarrow>
      sorted_wrt (\<lambda>a b. h_score b \<le> h_score a) (topScored limit pool))
   \<and> length (topScored limit pool) \<le> limit
   \<and> set (topScored limit pool) \<subseteq> set pool"
proof -
  have "list_all (\<lambda>h. h_score h \<noteq> NaN) pool \<longrightarrow>
      sorted_wrt (\<lambda>a b. h_score b \<le> h_score a) (take limit (sortByScore h_score pool))"
    by (auto simp: list_all_iff intro: sorted_wrt_take sorted_sortByScore)
  then show ?thesis
    by (auto simp add: topScored_def dest: in_set_takeD)
qed

lemma chunkedColdSearch_calls:
  assumes "chunkedColdSearch env q limit simulate s = Some (r, s')"
  shows "calls (coldStore s')
           = calls (coldStore s) @ (if available (coldStore s) then [Count, GetAll] else [Count])"
  using assms
  by (auto simp add: chunkedColdSearch_def store_defs split: prod.splits sum.splits if_splits)

lemma chunkedColdSearch_returns:
  assumes "coldSearchChunkSize (config s) > 0"
  shows "\<exists>y. chunkedColdSearch env q limit simulate s = Some y"
proof (cases "available (coldStore s)")
  case False
  then show ?thesis by (simp add: chunkedColdSearch_def store_defs)
next
  case True
  obtain y where "coldLoop env q limit simulate (coldSearchChunkSize (config s))
                    (map snd (items (coldStore s))) 0 [] = Some y"
    using coldLoop_returns[OF assms] by blast
  then show ?thesis using True by (simp add: chunkedColdSearch_def store_defs)
qed

lemma search_returns:
  assumes "coldSearchChunkSize (config s) > 0"
  shows "\<exists>y. search env queryText k simulate fs s = Some y"
proof -
  have c: "\<And>q limit (t::scmp). config t = config s \<Longrightarrow> \<exists>y. chunkedColdSearch env q limit simulate t = Some y"
    using assms chunkedColdSearch_returns by simp
  have b: "\<And>t::scmp. config t = config s \<Longrightarrow> \<exists>y. search_body env queryText k simulate fs t = Some y"
  proof -
    fix t :: scmp assume t: "config t = config s"
    show "\<exists>y. search_body env queryText k simulate fs t = Some y"
    proof (cases "embed env queryText")
      case (Inl e)
      then show ?thesis by (simp add: search_body_def)
    next
      case (Inr queryVec)
      show ?thesis
        using Inr c[OF t, of queryVec]
        by (auto simp add: search_body_def Let_def split: sum.splits prod.splits option.splits)
           (metis option.distinct(1))+
    qed
  qed
  show ?thesis
    using b[of s] b[of "s\<lparr>lock_search := True\<rparr>"]
    by (auto simp add: search_def)
qed

lemma goes_on_0:
  "goes_on env q limit simulate chunkSize allRecords i scored 0 \<longleftrightarrow> i < length allRecords"
  by (simp add: goes_on_def)

lemma goes_on_Suc:
  assumes "mapE (scoreCold env q simulate) (take chunkSize (drop i allRecords)) = Inr new1"
    and "\<not> limit * 5 \<le> length (scored @ new1)"
    and "goes_on env q limit simulate chunkSize allRecords (i + chunkSize) (scored @ new1) m"
  shows "goes_on env q limit simulate chunkSize allRecords i scored (Suc m)"
proof -
  have e: "mapE (scoreCold env q simulate) (take (Suc m * chunkSize) (drop i allRecords))
              = (case mapE (scoreCold env q simulate)
                        (take (m * chunkSize) (drop (i + chunkSize) allRecords)) of
                   Inl e \<Rightarrow> Inl e
                 | Inr bs \<Rightarrow> Inr (new1 @ bs))"
    by (simp only: take_chunks mapE_append assms(1) sum.case)
  show ?thesis
  proof (cases "mapE (scoreCold env q simulate)
                        (take (m * chunkSize) (drop (i + chunkSize) allRecords))")
    case (Inl e')
    then show ?thesis using assms(3) by (simp add: goes_on_def)
  next
    case (Inr bs)
    have b: "(m > 0 \<longrightarrow> length ((scored @ new1) @ bs) < limit * 5)"
        "i + chunkSize + m * chunkSize < length allRecords"
      using assms(3) Inr by (simp_all add: goes_on_def)
    have z: "m = 0 \<Longrightarrow> bs = []" using Inr by simp
    have l: "length (scored @ new1 @ bs) < limit * 5"
      using b(1) z assms(2) by (cases "m = 0") auto
    have "mapE (scoreCold env q simulate) (take (Suc m * chunkSize) (drop i allRecords))
            = Inr (new1 @ bs)"
      using e Inr by simp
    then show ?thesis
      using l b(2) unfolding goes_on_def by (simp add: add.assoc)
  qed
qed

text \<open>
  The same with the exit made precise: the scan stops after the first slice at which
  the pool has reached \<open>5 \<cdot> limit\<close> entries or the array is exhausted, not later.
\<close>

lemma coldLoop_first_exit:
  assumes "chunkSize > 0"
  shows "\<exists>n. (case mapE (scoreCold env q simulate) (take (n * chunkSize) (drop i allRecords)) of
               Inl e \<Rightarrow> coldLoop env q limit simulate chunkSize allRecords i scored = Some (Inl e)
             | Inr new \<Rightarrow>
                 coldLoop env q limit simulate chunkSize allRecords i scored
                   = Some (Inr (topScored limit (scored @ new)))
                 \<and> (length allRecords \<le> i + n * chunkSize \<or> limit * 5 \<le> length (scored @ new)))
          \<and> (\<forall>m < n. goes_on env q limit simulate chunkSize allRecords i scored m)"
proof (induction "length allRecords - i" arbitrary: i scored rule: less_induct)
  case less
  show ?case
  proof (cases "i < length allRecords")
    case False
    have "coldLoop env q limit simulate chunkSize allRecords i scored
            = Some (Inr (topScored limit scored))"
      using False by (subst coldLoop.simps) simp
    then show ?thesis using False by (intro exI[of _ 0]) simp
  next
    case True
    have g0: "\<forall>m < 1. goes_on env q limit simulate chunkSize allRecords i scored m"
      using True by (simp add: goes_on_0)
    show ?thesis
    proof (cases "mapE (scoreCold env q simulate) (take chunkSize (drop i allRecords))")
      case (Inl e)
      have "coldLoop env q limit simulate chunkSize allRecords i scored = Some (Inl e)"
        using True Inl by (subst coldLoop.simps) (simp add: scoreChunk_mapE)
      then show ?thesis using Inl g0 by (intro exI[of _ 1]) simp
    next
      case (Inr new1)
      show ?thesis
      proof (cases "limit * 5 \<le> length (scored @ new1)")
        case full: True
        have "coldLoop env q limit simulate chunkSize allRecords i scored
                = Some (Inr (topScored limit (scored @ new1)))"
          using True Inr full by (subst coldLoop.simps) (simp add: scoreChunk_mapE)
        then show ?thesis using Inr full g0 by (intro exI[of _ 1]) simp
      next
        case more: False
        have step: "coldLoop env q limit simulate chunkSize allRecords i scored
                = coldLoop env q limit simulate chunkSize allRecords (i + chunkSize) (scored @ new1)"
          using True Inr more by (subst coldLoop.simps) (simp add: scoreChunk_mapE)
        have "length allRecords - (i + chunkSize) < length allRecords - i"
          using True assms by simp
        from less[OF this, of "scored @ new1"]
        obtain n where n: "(case mapE (scoreCold env q simulate)
                 (take (n * chunkSize) (drop (i + chunkSize) allRecords)) of
               Inl e \<Rightarrow> coldLoop env q limit simulate chunkSize allRecords (i + chunkSize)
                          (scored @ new1) = Some (Inl e)
             | Inr new \<Rightarrow>
                 coldLoop env q limit simulate chunkSize allRecords (i + chunkSize) (scored @ new1)
                   = Some (Inr (topScored limit ((scored @ new1) @ new)))
                 \<and> (length allRecords \<le> i + chunkSize + n * chunkSize
                    \<or> limit * 5 \<le> length ((scored @ new1) @ new)))"
          and g: "\<forall>m < n. goes_on env q limit simulate chunkSize allRecords (i + chunkSize)
                            (scored @ new1) m"
          by blast
        have e: "mapE (scoreCold env q simulate) (take (Suc n * chunkSize) (drop i allRecords))
              = (case mapE (scoreCold env q simulate)
                        (take (n * chunkSize) (drop (i + chunkSize) allRecords)) of
                   Inl e \<Rightarrow> Inl e
                 | Inr bs \<Rightarrow> Inr (new1 @ bs))"
          by (simp only: take_chunks mapE_append Inr sum.case)
        have g': "\<forall>m < Suc n. goes_on env q limit simulate chunkSize allRecords i scored m"
        proof (intro allI impI)
          fix m assume m: "m < Suc n"
          show "goes_on env q limit simulate chunkSize allRecords i scored m"
          proof (cases m)
            case 0
            then show ?thesis using True by (simp add: goes_on_0)
          next
            case (Suc m')
            then have "m' < n" using m by simp
            then show ?thesis using goes_on_Suc[OF Inr more] g Suc by blast
          qed
        qed
        show ?thesis
        proof (cases "mapE (scoreCold env q simulate)
                        (take (n * chunkSize) (drop (i + chunkSize) allRecords))")
          case (Inl e')
          have "mapE (scoreCold env q simulate) (take (Suc n * chunkSize) (drop i allRecords)) = Inl e'"
            using e Inl by simp
          moreover have "coldLoop env q limit simulate chunkSize allRecords i scored = Some (Inl e')"
            using n step Inl by simp
          ultimately show ?thesis using g' by (intro exI[of _ "Suc n"]) (simp only: sum.case simp_thms)
        next
          case (Inr bs)
          have l: "i + chunkSize + n * chunkSize = i + Suc n * chunkSize" by simp
          have "mapE (scoreCold env q simulate) (take (Suc n * chunkSize) (drop i allRecords))
                  = Inr (new1 @ bs)"
            using e Inr by simp
          moreover have "coldLoop env q limit simulate chunkSize allRecords i scored
                   = Some (Inr (topScored limit (scored @ new1 @ bs)))
                 \<and> (length allRecords \<le> i + Suc n * chunkSize
                    \<or> limit * 5 \<le> length (scored @ new1 @ bs))"
            using n step Inr l by (simp only: sum.case append_assoc)
          ultimately show ?thesis using g' by (intro exI[of _ "Suc n"]) (simp only: sum.case simp_thms)
        qed
      qed
    qed
  qed
qed

end
